theory Spec2Isabelle
  imports Complex_Main "HOL-Library.Word"
begin

section \<open>Data model of the recorder components\<close>

text \<open>
  The repository has three React recorder components: \<open>MediaRecorder\<close> (the combined
  audio/video recorder used by the interview session), \<open>AudioRecorder\<close> and
  \<open>WebcamRecorder\<close>. Each keeps its state in \<open>useState\<close> cells and \<open>useRef\<close> boxes.
  The model is one record holding those cells and boxes under the names the source gives
  them; \<open>AudioRecorder\<close> and \<open>WebcamRecorder\<close> use the subset they declare
  (\<open>audioRef\<close>/\<open>playbackVideoRef\<close> are \<open>mediaRef\<close>, \<open>audioUrl\<close>/\<open>videoUrl\<close> are
  \<open>mediaUrl\<close>, \<open>voiceAnalysis\<close>/\<open>videoAnalysis\<close> are \<open>analysisMetrics\<close>).
  A handler is a function from the state in which it is called to the state it leaves.
  The analysis loop of a component runs after an \<open>await\<close> and from timers; it reads \<open>isRecording\<close>,
  \<open>recordingTime\<close> and \<open>mediaType\<close> as constants of the render whose handler started
  it, so the model passes it those values as an \<open>analysis_closure\<close>.
  JavaScript numbers are modelled as reals.
\<close>

type_synonym byte = "8 word"

datatype blob = Blob (blob_bytes: "byte list") (blob_type: string)

definition blob_size :: "blob \<Rightarrow> nat" where
  "blob_size b = length (blob_bytes b)"

datatype mediaType = audio | video

definition mediaType_str :: "mediaType \<Rightarrow> string" where
  "mediaType_str t = (case t of audio \<Rightarrow> ''audio'' | video \<Rightarrow> ''video'')"

text \<open>
  The properties of an \<open>HTMLMediaElement\<close> that the components read or assign, holding
  what the handlers assign, and the number of \<open>play()\<close> requests the element has
  received.
\<close>

record media_element =
  el_src :: "nat option"
  el_paused :: bool
  el_currentTime :: real
  el_volume :: real
  el_playCalls :: nat

record metrics =
  metrics_volume :: real
  pace :: real
  clarity :: real
  confidence :: real
  facialExpressions :: real
  eyeContact :: real

definition zero_metrics :: metrics where
  "zero_metrics = \<lparr>metrics_volume = 0, pace = 0, clarity = 0, confidence = 0,
     facialExpressions = 0, eyeContact = 0\<rparr>"

text \<open>The platform recorder object: the MIME type it was created with and whether it runs.\<close>

record recorder_obj =
  rec_mimeType :: string
  rec_recording :: bool

text \<open>The values of the state cells that a run of the analysis loop has closed over.\<close>

record analysis_closure =
  cl_isRecording :: bool
  cl_recordingTime :: nat
  cl_mediaType :: mediaType

text \<open>
  The component state. The fields from \<open>activeTimers\<close> on are the platform's and the
  parent's side of what the component does: the interval handles that are still
  scheduled, the streams whose tracks have not been stopped, the object URLs that have
  not been revoked, the next fresh identifier, the number of \<open>getUserMedia\<close> calls made
  so far, the scheduled callbacks of the analysis loop (each with the values it has
  closed over), the arguments of the calls to \<open>onRecordingComplete\<close> and the samples
  passed to \<open>onAnalysisUpdate\<close>.
\<close>

record component =
  mediaType :: mediaType
  isRecording :: bool
  recordedBlob :: "blob option"
  recordingTime :: nat
  error :: "string option"
  isPlaying :: bool
  currentTime :: real
  duration :: real
  mediaUrl :: "nat option"
  volume :: real
  isMuted :: bool
  previousVolume :: real
  isLoading :: bool
  transcribedText :: "string option"
  isMediaRecorderSupported :: bool
  isTranscribing :: bool
  transcriptionProgress :: real
  isWhisperSupportedState :: bool
  isMediaLoaded :: bool
  isPlaybackInProgress :: bool
  uploadProgress :: real
  uploadError :: "string option"
  analysisMetrics :: metrics
  mediaRef :: "media_element option"
  mediaRecorderRef :: "recorder_obj option"
  streamRef :: "nat option"
  timerRef :: "nat option"
  playbackTimerRef :: "nat option"
  chunksRef :: "blob list"
  activeTimers :: "nat set"
  liveStreams :: "nat set"
  liveUrls :: "nat set"
  nextId :: nat
  gumCalls :: nat
  analysisTimeouts :: "analysis_closure list"
  recordingComplete :: "(blob \<times> string option) list"
  emitted :: "metrics list"

text \<open>The values that the handlers of the render showing state \<open>st\<close> close over.\<close>

definition render_of :: "component \<Rightarrow> analysis_closure" where
  "render_of st = \<lparr>cl_isRecording = isRecording st, cl_recordingTime = recordingTime st,
     cl_mediaType = mediaType st\<rparr>"

section \<open>Playback controls\<close>

text \<open>
  \<open>handleSliderChange\<close>, \<open>handleVolumeChange\<close> and \<open>toggleMute\<close> have the same body in
  the three components (only the name of the element ref differs). The Slider passes the
  positions of its thumbs as an array and the handlers read \<open>value[0]\<close>. For the empty
  array, which the one-thumb sliders of these components never pass, JavaScript reads
  \<open>undefined\<close>. The element refuses it as its \<open>currentTime\<close>, so \<open>handleSliderChange\<close>
  changes nothing; \<open>handleVolumeChange\<close> stores it in the \<open>volume\<close> cell, where it is a
  value outside the modelled numbers: the model leaves the state as it is there, and no
  statement below is about that call.

  Assigning the \<open>volume\<close> of a media element a number outside \<open>[0, 1]\<close> throws an
  \<open>IndexSizeError\<close>. The handlers have no \<open>try\<close>, so the handler ends at that
  assignment: what it has set before stays set, and what follows is not run.
\<close>

definition handleSliderChange :: "real list \<Rightarrow> component \<Rightarrow> component" where
  "handleSliderChange val st =
     (case val of
        [] \<Rightarrow> st
      | t # _ \<Rightarrow>
         (case mediaRef st of
            None \<Rightarrow> st
          | Some el \<Rightarrow> st\<lparr>mediaRef := Some (el\<lparr>el_currentTime := t\<rparr>), currentTime := t\<rparr>))"

definition handleVolumeChange :: "real list \<Rightarrow> component \<Rightarrow> component" where
  "handleVolumeChange val st =
     (case val of
        [] \<Rightarrow> st
      | newVolume # _ \<Rightarrow>
         (let st1 = st\<lparr>volume := newVolume\<rparr> in
          case mediaRef st1 of
            None \<Rightarrow> (if newVolume > 0 then st1\<lparr>isMuted := False\<rparr> else st1)
          | Some el \<Rightarrow>
             (if 0 \<le> newVolume \<and> newVolume \<le> 1
              then (let st2 = st1\<lparr>mediaRef := Some (el\<lparr>el_volume := newVolume\<rparr>)\<rparr>
                    in if newVolume > 0 then st2\<lparr>isMuted := False\<rparr> else st2)
              else st1)))"

definition toggleMute :: "component \<Rightarrow> component" where
  "toggleMute st =
     (case mediaRef st of
        None \<Rightarrow> st
      | Some el \<Rightarrow>
         (if isMuted st
          then (if 0 \<le> previousVolume st \<and> previousVolume st \<le> 1
                then st\<lparr>mediaRef := Some (el\<lparr>el_volume := previousVolume st\<rparr>),
                        volume := previousVolume st, isMuted := False\<rparr>
                else st)
          else st\<lparr>previousVolume := volume st,
                  mediaRef := Some (el\<lparr>el_volume := 0\<rparr>),
                  volume := 0, isMuted := True\<rparr>))"

text \<open>
  The volume the listener hears: the volume of the playback element when one is mounted,
  and the component's \<open>volume\<close> cell while none is.
\<close>

definition effectiveVolume :: "component \<Rightarrow> real" where
  "effectiveVolume st = (case mediaRef st of None \<Rightarrow> volume st | Some el \<Rightarrow> el_volume el)"

section \<open>The transcription library loader (\<open>client-transcription\<close>)\<close>

text \<open>
  The module keeps three variables, \<open>isWhisperLoaded\<close>, \<open>loadPromise\<close> and
  \<open>transformersLib\<close>. Promises are objects with an identity, so the model keeps a store
  from promise identifiers to their settlement state, and counts the script elements that
  have been appended to the document.
\<close>

datatype promise_state = Pending | Fulfilled | Rejected string

record whisper_module =
  isWhisperLoaded :: bool
  loadPromise :: "nat option"
  transformersLib :: "nat option"
  promises :: "nat \<rightharpoonup> promise_state"
  nextPromise :: nat
  scriptsAppended :: nat

definition whisper_initial :: whisper_module where
  "whisper_initial = \<lparr>isWhisperLoaded = False, loadPromise = None, transformersLib = None,
     promises = Map.empty, nextPromise = 0, scriptsAppended = 0\<rparr>"

text \<open>
  What the browser decides: whether \<open>window\<close> exists, whether \<open>WebAssembly\<close> is an
  object with a function \<open>instantiate\<close>, the value of \<open>typeof URL\<close>, the value of
  \<open>window.Transformers\<close> before and after the script has run, whether the script element
  fires \<open>load\<close>, \<open>error\<close> or nothing, the error that creating the speech pipeline throws
  (if it does), and what running it gives: an error, or the text of the result.
\<close>

datatype script_outcome = ScriptLoads | ScriptFails | ScriptSilent

record whisper_env =
  windowDefined :: bool
  webAssembly :: bool
  typeofURL :: string
  windowTransformers :: "nat option"
  loadedTransformers :: "nat option"
  scriptOutcome :: script_outcome
  pipelineError :: "string option"
  pipelineResult :: "string + string"

definition new_promise :: "promise_state \<Rightarrow> whisper_module \<Rightarrow> nat \<times> whisper_module" where
  "new_promise s m =
     (nextPromise m, m\<lparr>promises := (promises m)(nextPromise m \<mapsto> s), nextPromise := Suc (nextPromise m)\<rparr>)"

text \<open>\<open>resolve\<close> and \<open>reject\<close> of a promise that is already settled do nothing.\<close>

definition settle :: "nat \<Rightarrow> promise_state \<Rightarrow> whisper_module \<Rightarrow> whisper_module" where
  "settle p s m = (if promises m p = Some Pending then m\<lparr>promises := (promises m)(p \<mapsto> s)\<rparr> else m)"

definition initWhisper :: "whisper_env \<Rightarrow> whisper_module \<Rightarrow> nat \<times> whisper_module" where
  "initWhisper env m =
     (if isWhisperLoaded m \<and> transformersLib m \<noteq> None then new_promise Fulfilled m
      else case loadPromise m of
        Some p \<Rightarrow> (p, m)
      | None \<Rightarrow>
         (let (p, m1) = new_promise Pending m;
              m2 = (if \<not> windowDefined env
                    then settle p (Rejected ''Whisper Web can only be used in a browser environment'') m1
                    else if windowTransformers env \<noteq> None
                    then settle p Fulfilled
                           (m1\<lparr>transformersLib := windowTransformers env, isWhisperLoaded := True\<rparr>)
                    else m1\<lparr>scriptsAppended := Suc (scriptsAppended m1)\<rparr>)
          in (p, m2\<lparr>loadPromise := Some p\<rparr>)))"

text \<open>The two handlers of the script element; \<open>p\<close> is the promise whose executor made it.\<close>

definition script_onload :: "whisper_env \<Rightarrow> nat \<Rightarrow> whisper_module \<Rightarrow> whisper_module" where
  "script_onload env p m =
     settle p Fulfilled (m\<lparr>transformersLib := loadedTransformers env, isWhisperLoaded := True\<rparr>)"

definition script_onerror :: "nat \<Rightarrow> whisper_module \<Rightarrow> whisper_module" where
  "script_onerror p m = settle p (Rejected ''Failed to load Whisper Web library'') m"

text \<open>
  \<open>await initWhisper()\<close>: when the promise is still pending the script element decides;
  a script that fires neither event leaves the caller waiting for ever (\<open>None\<close>).
\<close>

definition await_initWhisper :: "whisper_env \<Rightarrow> whisper_module \<Rightarrow> promise_state option \<times> whisper_module" where
  "await_initWhisper env m =
     (let (p, m1) = initWhisper env m in
      case promises m1 p of
        Some Pending \<Rightarrow>
          (case scriptOutcome env of
             ScriptLoads \<Rightarrow> (Some Fulfilled, script_onload env p m1)
           | ScriptFails \<Rightarrow> (Some (Rejected ''Failed to load Whisper Web library''), script_onerror p m1)
           | ScriptSilent \<Rightarrow> (None, m1))
      | r \<Rightarrow> (r, m1))"

text \<open>
  What can happen to the loader during the lifetime of a page: calls of \<open>initWhisper\<close>,
  and the \<open>load\<close> or \<open>error\<close> event of the script element. A script event can only
  occur while the promise whose executor appended the script is pending.
\<close>

datatype whisper_event = CallInit | ScriptLoad | ScriptError

definition script_in_flight :: "whisper_module \<Rightarrow> nat option" where
  "script_in_flight m =
     (case loadPromise m of
        Some p \<Rightarrow> (if promises m p = Some Pending \<and> scriptsAppended m > 0 then Some p else None)
      | None \<Rightarrow> None)"

fun whisper_step :: "whisper_env \<Rightarrow> whisper_module \<Rightarrow> whisper_event \<Rightarrow> whisper_module" where
  "whisper_step env m CallInit = snd (initWhisper env m)"
| "whisper_step env m ScriptLoad =
     (case script_in_flight m of Some p \<Rightarrow> script_onload env p m | None \<Rightarrow> m)"
| "whisper_step env m ScriptError =
     (case script_in_flight m of Some p \<Rightarrow> script_onerror p m | None \<Rightarrow> m)"

definition whisper_run :: "whisper_env \<Rightarrow> whisper_event list \<Rightarrow> whisper_module \<Rightarrow> whisper_module" where
  "whisper_run env evs m = foldl (whisper_step env) m evs"

text \<open>
  The invariant of the states the loader can reach: at most one script element; none, and
  nothing loaded, before the first call; and afterwards \<open>loadPromise\<close> is an allocated
  promise that is fulfilled exactly when the library is marked as loaded.
\<close>

definition loader_inv :: "whisper_module \<Rightarrow> bool" where
  "loader_inv m =
     (scriptsAppended m \<le> 1 \<and>
      (case loadPromise m of
         None \<Rightarrow> scriptsAppended m = 0 \<and> \<not> isWhisperLoaded m
       | Some p \<Rightarrow> p < nextPromise m \<and> (isWhisperLoaded m = (promises m p = Some Fulfilled))))"

text \<open>
  \<open>isWhisperSupported\<close> also asks that \<open>ArrayBuffer\<close>, \<open>Uint8Array\<close>, \<open>Blob\<close> and
  \<open>URL.createObjectURL\<close> are functions, which they are in every browser that runs the
  recorder components. It asks that \<open>typeof URL\<close> is \<open>"object"\<close>; \<open>URL\<close> is a
  constructor, and \<open>typeof\<close> of a constructor is \<open>"function"\<close>.
\<close>

definition isWhisperSupported :: "whisper_env \<Rightarrow> bool" where
  "isWhisperSupported env =
     (windowDefined env \<and> webAssembly env \<and> typeofURL env = ''object'')"

section \<open>The transcription adapters\<close>

definition failure_text :: string where
  "failure_text = ''Transcription failed. Please try again or type your response manually.''"

definition unsupported_text :: string where
  "unsupported_text = ''Your browser does not support speech recognition. Please type your response manually.''"

text \<open>
  A JavaScript call either returns or throws: \<open>Inr\<close> is the returned value and \<open>Inl\<close> the
  message of the thrown error; an outer \<open>None\<close> is a promise that never settles. The body
  of the outer \<open>try\<close> of \<open>transcribeAudioClient\<close> comes first, then the function with its
  \<open>catch\<close>. The progress callback only writes \<open>transcriptionProgress\<close>, which
  \<open>performTranscription\<close> overwrites when it finishes, and is left out.
\<close>

definition transcribeAudioClient_try ::
    "whisper_env \<Rightarrow> whisper_module \<Rightarrow> (string + string) option \<times> whisper_module" where
  "transcribeAudioClient_try env m =
     (let (r, m1) = await_initWhisper env m in
      case r of
        None \<Rightarrow> (None, m1)
      | Some (Rejected e) \<Rightarrow> (Some (Inl e), m1)
      | Some _ \<Rightarrow>
         (if transformersLib m1 = None then (Some (Inl ''Transformers library not loaded''), m1)
          else case pipelineError env of
            Some e \<Rightarrow> (Some (Inl e), m1)
          | None \<Rightarrow>
             (case pipelineResult env of
                Inl e \<Rightarrow> (Some (Inl e), m1)
              | Inr txt \<Rightarrow> (Some (Inr (if txt = [] then ''No transcription available.'' else txt)), m1))))"

definition transcribeAudioClient ::
    "whisper_env \<Rightarrow> whisper_module \<Rightarrow> (string + string) option \<times> whisper_module" where
  "transcribeAudioClient env m =
     (let (r, m1) = transcribeAudioClient_try env m in
      case r of
        None \<Rightarrow> (None, m1)
      | Some (Inl e) \<Rightarrow> (Some (Inr failure_text), m1)
      | Some (Inr txt) \<Rightarrow> (Some (Inr txt), m1))"

text \<open>
  The fallback drives the browser's speech recognition while the blob plays. What
  happens after \<open>recognition.start()\<close> and \<open>audio.play()\<close> is a sequence of events; the
  promise takes the value of the first \<open>resolve\<close>.
\<close>

datatype speech_event =
    OnResult nat "(bool \<times> string) list"
  | OnError string
  | OnEnd
  | AudioEnded
  | PlayRejected string

record speech_env =
  speechApi :: bool
  recognitionThrows :: "string option"
  speechEvents :: "speech_event list"

record speech_state =
  transcript :: string
  resolved :: "string option"

definition resolve_with :: "string \<Rightarrow> speech_state \<Rightarrow> speech_state" where
  "resolve_with v s = (case resolved s of None \<Rightarrow> s\<lparr>resolved := Some v\<rparr> | Some _ \<Rightarrow> s)"

fun speech_step :: "speech_state \<Rightarrow> speech_event \<Rightarrow> speech_state" where
  "speech_step s (OnResult resultIndex results) =
     s\<lparr>transcript := transcript s @
          concat (map (\<lambda>r. snd r @ '' '') (filter fst (drop resultIndex results)))\<rparr>"
| "speech_step s (OnError e) = resolve_with failure_text s"
| "speech_step s OnEnd = resolve_with (if transcript s = [] then failure_text else transcript s) s"
| "speech_step s AudioEnded = s"
| "speech_step s (PlayRejected e) = resolve_with failure_text s"

text \<open>
  The events whose handler calls \<open>resolve\<close>, and the transcript that the final results
  of a sequence of events add up to.
\<close>

fun resolves :: "speech_event \<Rightarrow> bool" where
  "resolves (OnResult resultIndex results) = False"
| "resolves (OnError e) = True"
| "resolves OnEnd = True"
| "resolves AudioEnded = False"
| "resolves (PlayRejected e) = True"


definition transcribeAudioFallback :: "speech_env \<Rightarrow> (string + string) option" where
  "transcribeAudioFallback env =
     (if \<not> speechApi env then Some (Inr unsupported_text)
      else case recognitionThrows env of
        Some e \<Rightarrow> Some (Inr failure_text)
      | None \<Rightarrow>
         map_option Inr (resolved (foldl speech_step \<lparr>transcript = [], resolved = None\<rparr> (speechEvents env))))"

section \<open>The browser as the components see it\<close>

text \<open>
  \<open>getUserMedia env k\<close> is the outcome of the \<open>k\<close>-th call of
  \<open>navigator.mediaDevices.getUserMedia\<close>: a stream, or an error with its \<open>name\<close> and
  \<open>message\<close>. \<open>isTypeSupported\<close> is \<open>MediaRecorder.isTypeSupported\<close>; the recorder
  constructor throws for a type that is not supported, with the message
  \<open>constructorMessage\<close>. \<open>mathRandom env k\<close> is the value of the \<open>k\<close>-th call of
  \<open>Math.random()\<close> that a handler makes, \<open>avgVolume\<close> the mean of the analyser's byte
  frequency data, and \<open>audioContextMessage\<close> the message of the error that creating the
  audio context throws where none is available.
\<close>

datatype gum_result = Granted | Refused string string

record env =
  getUserMedia :: "nat \<Rightarrow> gum_result"
  windowMediaRecorder :: bool
  isTypeSupported :: "string \<Rightarrow> bool"
  constructorMessage :: string
  inactiveStopThrows :: bool
  mathRandom :: "nat \<Rightarrow> real"
  audioContextAvailable :: bool
  audioContextMessage :: string
  avgVolume :: real

text \<open>Timer handles, stream identifiers and object URLs are drawn from one counter.\<close>

definition setInterval :: "component \<Rightarrow> nat \<times> component" where
  "setInterval st =
     (nextId st, st\<lparr>activeTimers := insert (nextId st) (activeTimers st), nextId := Suc (nextId st)\<rparr>)"

definition clearInterval :: "nat \<Rightarrow> component \<Rightarrow> component" where
  "clearInterval h st = st\<lparr>activeTimers := activeTimers st - {h}\<rparr>"

definition createObjectURL :: "component \<Rightarrow> nat \<times> component" where
  "createObjectURL st =
     (nextId st, st\<lparr>liveUrls := insert (nextId st) (liveUrls st), nextId := Suc (nextId st)\<rparr>)"

definition revokeObjectURL :: "nat \<Rightarrow> component \<Rightarrow> component" where
  "revokeObjectURL u st = st\<lparr>liveUrls := liveUrls st - {u}\<rparr>"

definition new_stream :: "component \<Rightarrow> nat \<times> component" where
  "new_stream st =
     (nextId st, st\<lparr>liveStreams := insert (nextId st) (liveStreams st), nextId := Suc (nextId st)\<rparr>)"

definition stop_tracks :: "nat \<Rightarrow> component \<Rightarrow> component" where
  "stop_tracks s st = st\<lparr>liveStreams := liveStreams st - {s}\<rparr>"

section \<open>\<open>MediaRecorder\<close>: the combined recorder\<close>

definition clearTimers :: "component \<Rightarrow> component" where
  "clearTimers st =
     (let st1 = (case timerRef st of
                   Some h \<Rightarrow> (clearInterval h st)\<lparr>timerRef := None\<rparr>
                 | None \<Rightarrow> st)
      in case playbackTimerRef st1 of
           Some h \<Rightarrow> (clearInterval h st1)\<lparr>playbackTimerRef := None\<rparr>
         | None \<Rightarrow> st1)"

definition revokeMediaUrl :: "component \<Rightarrow> component" where
  "revokeMediaUrl st =
     (case mediaUrl st of
        Some u \<Rightarrow> (revokeObjectURL u st)\<lparr>mediaUrl := None\<rparr>
      | None \<Rightarrow> st)"

definition MediaRecorder_stopMediaTracks :: "component \<Rightarrow> component" where
  "MediaRecorder_stopMediaTracks st =
     (case streamRef st of
        Some s \<Rightarrow> (stop_tracks s st)\<lparr>streamRef := None\<rparr>
      | None \<Rightarrow> st)"

text \<open>
  \<open>recorder.stop()\<close> on a recorder that is not running throws in the browsers where
  \<open>inactiveStopThrows\<close> holds; the \<open>catch\<close> of \<open>stopRecording\<close> then reports it.
\<close>

definition MediaRecorder_stopRecording :: "env \<Rightarrow> component \<Rightarrow> component" where
  "MediaRecorder_stopRecording env st =
     (case mediaRecorderRef st of
        None \<Rightarrow> st
      | Some r \<Rightarrow>
         (if isRecording st
          then (if \<not> rec_recording r \<and> inactiveStopThrows env
                then st\<lparr>error := Some ''Failed to stop recording. Please refresh the page and try again.''\<rparr>
                else clearTimers (st\<lparr>mediaRecorderRef := Some (r\<lparr>rec_recording := False\<rparr>),
                                     isRecording := False\<rparr>))
          else st))"

text \<open>
  The simulated metrics of \<open>startAnalysisSimulation\<close>, as a function of the media type,
  the recording time and the value of \<open>Math.random()\<close>.
\<close>

definition MediaRecorder_newMetrics :: "mediaType \<Rightarrow> nat \<Rightarrow> real \<Rightarrow> metrics" where
  "MediaRecorder_newMetrics mt t rnd =
     (let randomFactor = rnd * 0.1;
          timeBasedFactor = min (real t / 30) 1
      in \<lparr>metrics_volume = min (60 + real t * 1.5 + randomFactor * 20) 100,
          pace = min (50 + timeBasedFactor * 40 + randomFactor * 10) 100,
          clarity = min (70 + timeBasedFactor * 20 + randomFactor * 10) 100,
          confidence = min (40 + timeBasedFactor * 50 + randomFactor * 10) 100,
          facialExpressions =
            (if mt = video then min (60 + timeBasedFactor * 30 + randomFactor * 10) 100 else 0),
          eyeContact =
            (if mt = video then min (70 + timeBasedFactor * 20 + randomFactor * 10) 100 else 0)\<rparr>)"

text \<open>
  One run of \<open>updateAnalysis\<close>, a function local to \<open>startAnalysisSimulation\<close>; \<open>cl\<close>
  holds the \<open>isRecording\<close>, \<open>recordingTime\<close> and \<open>mediaType\<close> of the render it was
  created in. When it emits a sample it also schedules itself with \<open>setTimeout\<close>;
  \<open>analysisTimeouts\<close> lists the runs that are scheduled, and
  \<open>MediaRecorder_analysisTimeout\<close> is the browser firing the first of them.
\<close>

definition MediaRecorder_updateAnalysis :: "env \<Rightarrow> analysis_closure \<Rightarrow> component \<Rightarrow> component" where
  "MediaRecorder_updateAnalysis env cl st =
     (if \<not> cl_isRecording cl then st
      else
        (let newMetrics = MediaRecorder_newMetrics (cl_mediaType cl) (cl_recordingTime cl) (mathRandom env 0)
         in st\<lparr>analysisMetrics := newMetrics, emitted := emitted st @ [newMetrics],
                analysisTimeouts := analysisTimeouts st @ [cl]\<rparr>))"

definition MediaRecorder_analysisTimeout :: "env \<Rightarrow> component \<Rightarrow> component" where
  "MediaRecorder_analysisTimeout env st =
     (case analysisTimeouts st of
        [] \<Rightarrow> st
      | cl # rest \<Rightarrow> MediaRecorder_updateAnalysis env cl (st\<lparr>analysisTimeouts := rest\<rparr>))"

text \<open>
  \<open>startMediaStream\<close> of the render with the values \<open>cl\<close>, run in state \<open>st\<close>: the
  request, and after the \<open>await\<close> either the stream and the analysis simulation or the
  error message.
\<close>

definition MediaRecorder_startMediaStream :: "env \<Rightarrow> analysis_closure \<Rightarrow> component \<Rightarrow> component" where
  "MediaRecorder_startMediaStream env cl st =
     (let st1 = st\<lparr>error := None, isLoading := True, gumCalls := Suc (gumCalls st)\<rparr> in
      case getUserMedia env (gumCalls st) of
        Granted \<Rightarrow>
          (let (s, st2) = new_stream st1;
               st3 = MediaRecorder_updateAnalysis env cl (st2\<lparr>streamRef := Some s\<rparr>)
           in st3\<lparr>isLoading := False\<rparr>)
      | Refused name message \<Rightarrow>
          st1\<lparr>error := Some (''Failed to access '' @ mediaType_str (cl_mediaType cl) @ ''. '' @
                   (if name = ''NotAllowedError''
                    then ''Please grant permission to use your microphone/camera.''
                    else if message \<noteq> [] then message
                    else ''Please check your device settings.'')),
              isLoading := False\<rparr>)"

text \<open>
  \<open>resetRecording\<close>, called in state \<open>st\<close>: the \<open>startMediaStream\<close> it calls at its
  end is the one of the same render, so the analysis simulation that follows reads the
  \<open>isRecording\<close> and \<open>recordingTime\<close> of \<open>st\<close>, not the values that the reset has set.
\<close>

definition MediaRecorder_resetRecording :: "env \<Rightarrow> component \<Rightarrow> component" where
  "MediaRecorder_resetRecording env st =
     (let st1 = (if isRecording st \<and> mediaRecorderRef st \<noteq> None
                 then MediaRecorder_stopRecording env st else st);
          st2 = (case mediaRef st1 of
                   Some el \<Rightarrow>
                     (if \<not> el_paused el then st1\<lparr>mediaRef := Some (el\<lparr>el_paused := True\<rparr>)\<rparr> else st1)
                 | None \<Rightarrow> st1);
          st3 = revokeMediaUrl (clearTimers (MediaRecorder_stopMediaTracks st2));
          st4 = st3\<lparr>recordedBlob := None, recordingTime := 0, currentTime := 0, duration := 0,
                    isPlaying := False, transcribedText := None, transcriptionProgress := 0,
                    isMediaLoaded := False, isPlaybackInProgress := False, uploadProgress := 0,
                    uploadError := None, analysisMetrics := zero_metrics\<rparr>
      in MediaRecorder_startMediaStream env (render_of st) st4)"

definition isMimeTypeSupported :: "env \<Rightarrow> string \<Rightarrow> bool" where
  "isMimeTypeSupported env mimeType = (windowMediaRecorder env \<and> isTypeSupported env mimeType)"

definition audioTypes :: "string list" where
  "audioTypes = [''audio/webm;codecs=opus'', ''audio/webm'', ''audio/mp4'',
     ''audio/ogg;codecs=opus'', ''audio/ogg'', ''audio/wav'']"

definition videoTypes :: "string list" where
  "videoTypes = [''video/webm;codecs=vp9,opus'', ''video/webm;codecs=vp8,opus'', ''video/webm'',
     ''video/mp4'', ''video/webm;codecs=h264'']"

definition getBestMimeType :: "env \<Rightarrow> bool \<Rightarrow> string" where
  "getBestMimeType env isAudio =
     (if isAudio
      then (case find (isMimeTypeSupported env) audioTypes of Some t \<Rightarrow> t | None \<Rightarrow> ''audio/webm'')
      else (case find (isMimeTypeSupported env) videoTypes of Some t \<Rightarrow> t | None \<Rightarrow> ''video/webm''))"

text \<open>The \<open>try\<close> block of \<open>startRecording\<close>, reached when a stream is held.\<close>

definition MediaRecorder_record :: "env \<Rightarrow> component \<Rightarrow> component" where
  "MediaRecorder_record env st =
     (let st1 = st\<lparr>chunksRef := []\<rparr>;
          mimeType = getBestMimeType env (mediaType st = audio)
      in if \<not> isMimeTypeSupported env mimeType
         then st1\<lparr>error := Some (if constructorMessage env \<noteq> [] then constructorMessage env
                    else ''Failed to start '' @ mediaType_str (mediaType st) @
                         '' recording. Please try again.'')\<rparr>
         else
           (let st2 = st1\<lparr>mediaRecorderRef := Some \<lparr>rec_mimeType = mimeType, rec_recording = True\<rparr>,
                          isRecording := True, recordingTime := 0\<rparr>;
                (h, st3) = setInterval st2
            in st3\<lparr>timerRef := Some h\<rparr>))"

text \<open>
  \<open>startRecording\<close> re-invokes itself through \<open>setTimeout\<close>. The first argument bounds the
  number of invocations: \<open>None\<close> means that the last invocation allowed has scheduled
  another one.
\<close>

fun MediaRecorder_startRecording :: "nat \<Rightarrow> env \<Rightarrow> component \<Rightarrow> component option" where
  "MediaRecorder_startRecording 0 env st = None"
| "MediaRecorder_startRecording (Suc n) env st =
     (if \<not> isMediaRecorderSupported st
      then Some (st\<lparr>error := Some ''Your browser doesn't support MediaRecorder. Please try using Chrome, Firefox, or Edge.''\<rparr>)
      else if streamRef st = None
      then (let st1 = MediaRecorder_startMediaStream env (render_of st) st in
            if streamRef st1 \<noteq> None then MediaRecorder_startRecording n env st1 else Some st1)
      else Some (MediaRecorder_record env st))"

definition ondataavailable :: "blob option \<Rightarrow> component \<Rightarrow> component" where
  "ondataavailable e_data st =
     (case e_data of
        Some b \<Rightarrow> (if blob_size b > 0 then st\<lparr>chunksRef := chunksRef st @ [b]\<rparr> else st)
      | None \<Rightarrow> st)"

definition new_Blob :: "blob list \<Rightarrow> string \<Rightarrow> blob" where
  "new_Blob parts mimeType = Blob (concat (map blob_bytes parts)) mimeType"

text \<open>
  \<open>performTranscription\<close>: the Whisper path when the cell \<open>isWhisperSupportedState\<close>
  is set, the speech-recognition fallback when that path throws or the cell is not set,
  and the fixed failure text from the outer \<open>catch\<close>. The run records which adapters
  were called.
\<close>

datatype adapter_call = WhisperCall | FallbackCall

record transcription_run =
  tr_text :: "string option"
  tr_calls :: "adapter_call list"
  tr_component :: component
  tr_module :: whisper_module

definition performTranscription ::
    "whisper_env \<Rightarrow> speech_env \<Rightarrow> component \<Rightarrow> whisper_module \<Rightarrow> transcription_run" where
  "performTranscription wenv senv st m =
     (let st1 = st\<lparr>isTranscribing := True, transcribedText := Some ''Transcribing your audio...'',
                    transcriptionProgress := 0\<rparr>;
          (r, calls, m1) =
            (if isWhisperSupportedState st
             then (let (c, m') = transcribeAudioClient wenv m in
                   case c of
                     Some (Inl whisperError) \<Rightarrow>
                       (transcribeAudioFallback senv, [WhisperCall, FallbackCall], m')
                   | _ \<Rightarrow> (c, [WhisperCall], m'))
             else (transcribeAudioFallback senv, [FallbackCall], m))
      in case r of
           None \<Rightarrow> \<lparr>tr_text = None, tr_calls = calls, tr_component = st1, tr_module = m1\<rparr>
         | Some (Inr transcription) \<Rightarrow>
             \<lparr>tr_text = Some transcription, tr_calls = calls,
              tr_component = st1\<lparr>transcribedText := Some transcription, isTranscribing := False,
                                transcriptionProgress := 100\<rparr>,
              tr_module = m1\<rparr>
         | Some (Inl e) \<Rightarrow>
             \<lparr>tr_text = Some failure_text, tr_calls = calls,
              tr_component = st1\<lparr>transcribedText := Some failure_text, isTranscribing := False,
                                transcriptionProgress := 100\<rparr>,
              tr_module = m1\<rparr>)"

text \<open>
  The \<open>onstop\<close> handler that \<open>startRecording\<close> installs; \<open>r\<close> is the recorder it was
  installed on, whose MIME type the handler has captured.
\<close>

definition MediaRecorder_onstop ::
    "whisper_env \<Rightarrow> speech_env \<Rightarrow> recorder_obj \<Rightarrow> component \<times> whisper_module
       \<Rightarrow> component \<times> whisper_module" where
  "MediaRecorder_onstop wenv senv r sm =
     (let st = fst sm; m = snd sm; mt = mediaType_str (mediaType st) in
      if chunksRef st = []
      then (st\<lparr>error := Some (''No '' @ mt @ '' data was recorded. Please try again.'')\<rparr>, m)
      else
        (let blob = new_Blob (chunksRef st) (rec_mimeType r) in
         if blob_size blob = 0
         then (st\<lparr>error := Some (''Recorded '' @ mt @ '' is empty. Please try again.'')\<rparr>, m)
         else
           (let st1 = revokeMediaUrl (st\<lparr>recordedBlob := Some blob\<rparr>);
                (newMediaUrl, st2) = createObjectURL st1;
                st3 = st2\<lparr>mediaUrl := Some newMediaUrl\<rparr>;
                st4 = (case mediaRef st3 of
                         Some el \<Rightarrow> st3\<lparr>mediaRef := Some (el\<lparr>el_src := Some newMediaUrl\<rparr>)\<rparr>
                       | None \<Rightarrow> st3)
            in if mediaType st = audio
               then (let run = performTranscription wenv senv st4 m in
                     case tr_text run of
                       Some transcription \<Rightarrow>
                         ((tr_component run)\<lparr>recordingComplete :=
                             recordingComplete (tr_component run) @ [(blob, Some transcription)]\<rparr>,
                          tr_module run)
                     | None \<Rightarrow> (tr_component run, tr_module run))
               else (st4\<lparr>recordingComplete := recordingComplete st4 @ [(blob, None)]\<rparr>, m))))"

text \<open>
  \<open>togglePlayback\<close> is asynchronous. The model runs it up to its next \<open>await\<close> and
  returns what it waits for; \<open>MediaRecorder_togglePlayback_resume\<close> runs it on from
  there, given how the \<open>play()\<close> promise settles. \<open>play()\<close> returns a promise, as it
  does in the browsers that have \<open>MediaRecorder\<close>.
\<close>

datatype playback_wait = PauseDelay | LoadDelay | PlayPromise

datatype play_outcome = PlayResolves | PlayRejects string

definition MediaRecorder_togglePlayback :: "component \<Rightarrow> component \<times> playback_wait option" where
  "MediaRecorder_togglePlayback st =
     (if isPlaybackInProgress st then (st, None)
      else case mediaRef st of
        None \<Rightarrow> (st, None)
      | Some el \<Rightarrow>
         (if mediaUrl st = None then (st, None)
          else
            (let st1 = st\<lparr>isPlaybackInProgress := True\<rparr> in
             if isPlaying st
             then (st1\<lparr>mediaRef := Some (el\<lparr>el_paused := True\<rparr>)\<rparr>, Some PauseDelay)
             else if \<not> isMediaLoaded st then (st1, Some LoadDelay)
             else (st1\<lparr>mediaRef := Some (el\<lparr>el_playCalls := Suc (el_playCalls el)\<rparr>)\<rparr>,
                   Some PlayPromise))))"

definition MediaRecorder_togglePlayback_resume ::
    "playback_wait \<Rightarrow> play_outcome \<Rightarrow> component \<Rightarrow> component \<times> playback_wait option" where
  "MediaRecorder_togglePlayback_resume w outcome st =
     (case w of
        PauseDelay \<Rightarrow>
          (let st1 = st\<lparr>isPlaying := False\<rparr>;
               st2 = (case playbackTimerRef st1 of
                        Some h \<Rightarrow> (clearInterval h st1)\<lparr>playbackTimerRef := None\<rparr>
                      | None \<Rightarrow> st1)
           in (st2\<lparr>isPlaybackInProgress := False\<rparr>, None))
      | LoadDelay \<Rightarrow>
          (case mediaRef st of
             None \<Rightarrow>
               (st\<lparr>error := Some ''Error controlling playback: Media element no longer available'',
                   isPlaybackInProgress := False\<rparr>, None)
           | Some el \<Rightarrow>
               (st\<lparr>mediaRef := Some (el\<lparr>el_playCalls := Suc (el_playCalls el)\<rparr>)\<rparr>, Some PlayPromise))
      | PlayPromise \<Rightarrow>
          (case outcome of
             PlayResolves \<Rightarrow>
               (let st1 = (case mediaRef st of
                             Some el \<Rightarrow> st\<lparr>mediaRef := Some (el\<lparr>el_paused := False\<rparr>)\<rparr>
                           | None \<Rightarrow> st);
                    st2 = st1\<lparr>isPlaying := True\<rparr>;
                    st3 = (case playbackTimerRef st2 of
                             Some h \<Rightarrow> clearInterval h st2
                           | None \<Rightarrow> st2);
                    (h, st4) = setInterval st3
                in (st4\<lparr>playbackTimerRef := Some h, isPlaybackInProgress := False\<rparr>, None))
           | PlayRejects message \<Rightarrow>
               (st\<lparr>error := Some (''Error playing '' @ mediaType_str (mediaType st) @ '': '' @ message),
                   isPlaybackInProgress := False\<rparr>, None)))"

section \<open>\<open>AudioRecorder\<close>\<close>

text \<open>
  \<open>updateAnalysis\<close> of \<open>analyzeAudio\<close>: it returns at once unless the render it was
  created in is recording and there is an audio context; otherwise it writes the
  measured level into the \<open>volume\<close> cell, emits a sample without the video fields (zero
  in the record), and asks for its next run with \<open>requestAnimationFrame\<close>.
\<close>

definition AudioRecorder_newAnalysis :: "nat \<Rightarrow> real \<Rightarrow> metrics" where
  "AudioRecorder_newAnalysis t normalizedVolume =
     \<lparr>metrics_volume = normalizedVolume * 100,
      pace = min ((real t / 10) * 100) 100,
      clarity = min (normalizedVolume * 110) 100,
      confidence = min (normalizedVolume * 80 + (real t / 30) * 20) 100,
      facialExpressions = 0,
      eyeContact = 0\<rparr>"

definition AudioRecorder_updateAnalysis :: "env \<Rightarrow> analysis_closure \<Rightarrow> component \<Rightarrow> component" where
  "AudioRecorder_updateAnalysis env cl st =
     (if cl_isRecording cl \<and> audioContextAvailable env
      then
        (let normalizedVolume = min (avgVolume env / 128) 1;
             newAnalysis = AudioRecorder_newAnalysis (cl_recordingTime cl) normalizedVolume
         in st\<lparr>volume := normalizedVolume, analysisMetrics := newAnalysis,
                emitted := emitted st @ [newAnalysis],
                analysisTimeouts := analysisTimeouts st @ [cl]\<rparr>)
      else st)"

definition AudioRecorder_startMicrophone :: "env \<Rightarrow> analysis_closure \<Rightarrow> component \<Rightarrow> component" where
  "AudioRecorder_startMicrophone env cl st =
     (let st1 = st\<lparr>error := None, gumCalls := Suc (gumCalls st)\<rparr> in
      case getUserMedia env (gumCalls st) of
        Granted \<Rightarrow>
          (let (s, st2) = new_stream st1
           in AudioRecorder_updateAnalysis env cl (st2\<lparr>streamRef := Some s\<rparr>))
      | Refused name message \<Rightarrow>
          st1\<lparr>error := Some (if message \<noteq> [] then message
                   else ''Failed to access microphone. Please check your microphone permissions.'')\<rparr>)"

definition AudioRecorder_stopMediaTracks :: "component \<Rightarrow> component" where
  "AudioRecorder_stopMediaTracks st =
     (case streamRef st of
        Some s \<Rightarrow> (stop_tracks s st)\<lparr>streamRef := None\<rparr>
      | None \<Rightarrow> st)"

definition AudioRecorder_record :: "env \<Rightarrow> component \<Rightarrow> component" where
  "AudioRecorder_record env st =
     (let st1 = st\<lparr>chunksRef := []\<rparr>;
          mimeType = (if isTypeSupported env ''audio/webm;codecs=opus'' then ''audio/webm;codecs=opus''
                      else if isTypeSupported env ''audio/mp4'' then ''audio/mp4''
                      else ''audio/webm'')
      in if windowMediaRecorder env \<and> isTypeSupported env mimeType
         then
           (let st2 = st1\<lparr>mediaRecorderRef := Some \<lparr>rec_mimeType = mimeType, rec_recording = True\<rparr>,
                          isRecording := True, recordingTime := 0\<rparr>;
                (h, st3) = setInterval st2
            in st3\<lparr>timerRef := Some h\<rparr>)
         else st1\<lparr>error := Some (if constructorMessage env \<noteq> [] then constructorMessage env
                    else ''Failed to start recording. Please try again.'')\<rparr>)"

text \<open>
  \<open>startRecording\<close> with the same bound on the number of invocations as above. Here the
  \<open>then\<close> callback schedules the next invocation whatever \<open>startMicrophone\<close> achieved.
\<close>

fun AudioRecorder_startRecording :: "nat \<Rightarrow> env \<Rightarrow> component \<Rightarrow> component option" where
  "AudioRecorder_startRecording 0 env st = None"
| "AudioRecorder_startRecording (Suc n) env st =
     (if streamRef st = None
      then AudioRecorder_startRecording n env (AudioRecorder_startMicrophone env (render_of st) st)
      else Some (AudioRecorder_record env st))"

definition AudioRecorder_onstop :: "recorder_obj \<Rightarrow> component \<Rightarrow> component" where
  "AudioRecorder_onstop r st =
     (if chunksRef st = []
      then st\<lparr>error := Some ''No audio data was recorded. Please try again.''\<rparr>
      else
        (let blob = new_Blob (chunksRef st) (rec_mimeType r) in
         if blob_size blob = 0
         then st\<lparr>error := Some ''Recorded audio is empty. Please try again.''\<rparr>
         else
           (let st1 = st\<lparr>recordedBlob := Some blob,
                          recordingComplete := recordingComplete st @ [(blob, None)]\<rparr>;
                st2 = (case mediaUrl st1 of Some u \<Rightarrow> revokeObjectURL u st1 | None \<Rightarrow> st1);
                (newAudioUrl, st3) = createObjectURL st2;
                st4 = st3\<lparr>mediaUrl := Some newAudioUrl\<rparr>
            in case mediaRef st4 of
                 Some el \<Rightarrow> st4\<lparr>mediaRef := Some (el\<lparr>el_src := Some newAudioUrl\<rparr>)\<rparr>
               | None \<Rightarrow> st4)))"

definition AudioRecorder_stopRecording :: "env \<Rightarrow> component \<Rightarrow> component" where
  "AudioRecorder_stopRecording env st =
     (case mediaRecorderRef st of
        None \<Rightarrow> st
      | Some r \<Rightarrow>
         (if isRecording st
          then (if \<not> rec_recording r \<and> inactiveStopThrows env
                then st\<lparr>error := Some ''Failed to stop recording. Please refresh the page and try again.''\<rparr>
                else
                  (let st1 = st\<lparr>mediaRecorderRef := Some (r\<lparr>rec_recording := False\<rparr>),
                                 isRecording := False\<rparr>;
                       st2 = (case timerRef st1 of Some h \<Rightarrow> clearInterval h st1 | None \<Rightarrow> st1)
                   in AudioRecorder_stopMediaTracks st2))
          else st))"

definition AudioRecorder_resetRecording :: "env \<Rightarrow> component \<Rightarrow> component" where
  "AudioRecorder_resetRecording env st =
     (let st1 = (case mediaRef st of
                   Some el \<Rightarrow>
                     (if \<not> el_paused el then st\<lparr>mediaRef := Some (el\<lparr>el_paused := True\<rparr>)\<rparr> else st)
                 | None \<Rightarrow> st);
          st2 = (case mediaUrl st1 of
                   Some u \<Rightarrow> (revokeObjectURL u st1)\<lparr>mediaUrl := None\<rparr>
                 | None \<Rightarrow> st1);
          st3 = st2\<lparr>recordedBlob := None, recordingTime := 0, currentTime := 0, duration := 0,
                    isPlaying := False, analysisMetrics := zero_metrics\<rparr>
      in AudioRecorder_startMicrophone env (render_of st) st3)"

section \<open>\<open>WebcamRecorder\<close>\<close>

text \<open>
  \<open>analyzeVideo\<close> draws four values of \<open>Math.random()\<close>, for the volume, the clarity, the
  facial expressions and the eye contact. It returns at once unless the render it belongs
  to is recording, and schedules itself with \<open>setTimeout\<close> when it has emitted a sample.
\<close>

definition WebcamRecorder_newAnalysis :: "nat \<Rightarrow> real \<Rightarrow> real \<Rightarrow> real \<Rightarrow> real \<Rightarrow> metrics" where
  "WebcamRecorder_newAnalysis t r1 r2 r3 r4 =
     \<lparr>metrics_volume = min (30 + r1 * 50) 100,
      pace = min ((real t / 15) * 100) 100,
      clarity = min (40 + r2 * 40) 100,
      confidence = min (50 + (real t / 30) * 30) 100,
      facialExpressions = min (40 + r3 * 40) 100,
      eyeContact = min (60 + r4 * 30) 100\<rparr>"

definition WebcamRecorder_analyzeVideo :: "env \<Rightarrow> analysis_closure \<Rightarrow> component \<Rightarrow> component" where
  "WebcamRecorder_analyzeVideo env cl st =
     (if \<not> cl_isRecording cl then st
      else
        (let newAnalysis = WebcamRecorder_newAnalysis (cl_recordingTime cl)
               (mathRandom env 0) (mathRandom env 1) (mathRandom env 2) (mathRandom env 3)
         in st\<lparr>analysisMetrics := newAnalysis, emitted := emitted st @ [newAnalysis],
                analysisTimeouts := analysisTimeouts st @ [cl]\<rparr>))"

text \<open>
  \<open>startCamera\<close> stores the stream before it sets up the audio analysis, so an error
  from the latter is reported with the stream held.
\<close>

definition WebcamRecorder_startCamera :: "env \<Rightarrow> component \<Rightarrow> component" where
  "WebcamRecorder_startCamera env st =
     (let st1 = st\<lparr>error := None, gumCalls := Suc (gumCalls st)\<rparr> in
      case getUserMedia env (gumCalls st) of
        Granted \<Rightarrow>
          (let (s, st2) = new_stream st1;
               st3 = st2\<lparr>streamRef := Some s\<rparr>
           in if audioContextAvailable env then st3
              else st3\<lparr>error := Some (if audioContextMessage env \<noteq> [] then audioContextMessage env
                         else ''Failed to access camera and microphone'')\<rparr>)
      | Refused name message \<Rightarrow>
          st1\<lparr>error := Some (if message \<noteq> [] then message
                   else ''Failed to access camera and microphone'')\<rparr>)"

definition WebcamRecorder_stopMediaTracks :: "component \<Rightarrow> component" where
  "WebcamRecorder_stopMediaTracks st =
     (case streamRef st of
        Some s \<Rightarrow> (stop_tracks s st)\<lparr>streamRef := None\<rparr>
      | None \<Rightarrow> st)"

text \<open>
  The \<open>try\<close> block of \<open>startRecording\<close>, called in state \<open>st\<close>. The chunks are a local
  array of the call, which the two handlers close over; the model keeps it in
  \<open>chunksRef\<close>. The \<open>analyzeVideo\<close> it calls at its end is the one of the render that
  shows \<open>st\<close>, and reads the \<open>isRecording\<close> of \<open>st\<close>, not the value just set.
\<close>

definition WebcamRecorder_record :: "env \<Rightarrow> component \<Rightarrow> component" where
  "WebcamRecorder_record env st =
     (if windowMediaRecorder env \<and> isTypeSupported env ''video/webm''
      then
        (let st1 = st\<lparr>chunksRef := [],
                       mediaRecorderRef := Some \<lparr>rec_mimeType = ''video/webm'', rec_recording = True\<rparr>,
                       isRecording := True, recordingTime := 0\<rparr>;
             (h, st2) = setInterval st1
         in WebcamRecorder_analyzeVideo env (render_of st) (st2\<lparr>timerRef := Some h\<rparr>))
      else st\<lparr>error := Some (if constructorMessage env \<noteq> [] then constructorMessage env
                 else ''Failed to start recording'')\<rparr>)"

fun WebcamRecorder_startRecording :: "nat \<Rightarrow> env \<Rightarrow> component \<Rightarrow> component option" where
  "WebcamRecorder_startRecording 0 env st = None"
| "WebcamRecorder_startRecording (Suc n) env st =
     (if streamRef st = None
      then WebcamRecorder_startRecording n env (WebcamRecorder_startCamera env st)
      else Some (WebcamRecorder_record env st))"

text \<open>
  The data handler reads \<open>e.data.size\<close> without testing \<open>e.data\<close>; on an event without
  data that read throws and nothing is stored.
\<close>

definition WebcamRecorder_ondataavailable :: "blob option \<Rightarrow> component \<Rightarrow> component" where
  "WebcamRecorder_ondataavailable e_data st =
     (case e_data of
        Some b \<Rightarrow> (if blob_size b > 0 then st\<lparr>chunksRef := chunksRef st @ [b]\<rparr> else st)
      | None \<Rightarrow> st)"

definition WebcamRecorder_onstop :: "component \<Rightarrow> component" where
  "WebcamRecorder_onstop st =
     (let blob = new_Blob (chunksRef st) ''video/webm'';
          st1 = st\<lparr>recordedBlob := Some blob,
                    recordingComplete := recordingComplete st @ [(blob, None)]\<rparr>;
          st2 = (case mediaUrl st1 of Some u \<Rightarrow> revokeObjectURL u st1 | None \<Rightarrow> st1);
          (newVideoUrl, st3) = createObjectURL st2;
          st4 = st3\<lparr>mediaUrl := Some newVideoUrl\<rparr>
      in case mediaRef st4 of
           Some el \<Rightarrow> st4\<lparr>mediaRef := Some (el\<lparr>el_src := Some newVideoUrl\<rparr>)\<rparr>
         | None \<Rightarrow> st4)"

text \<open>
  \<open>stopRecording\<close> has no \<open>try\<close>: where \<open>recorder.stop()\<close> throws, the handler ends
  there and the state stays as it was.
\<close>

definition WebcamRecorder_stopRecording :: "env \<Rightarrow> component \<Rightarrow> component" where
  "WebcamRecorder_stopRecording env st =
     (case mediaRecorderRef st of
        None \<Rightarrow> st
      | Some r \<Rightarrow>
         (if isRecording st
          then (if \<not> rec_recording r \<and> inactiveStopThrows env
                then st
                else
                  (let st1 = st\<lparr>mediaRecorderRef := Some (r\<lparr>rec_recording := False\<rparr>),
                                 isRecording := False\<rparr>;
                       st2 = (case timerRef st1 of Some h \<Rightarrow> clearInterval h st1 | None \<Rightarrow> st1)
                   in WebcamRecorder_stopMediaTracks st2))
          else st))"

text \<open>\<open>togglePlayback\<close> of \<open>WebcamRecorder\<close>: its only \<open>await\<close> is on the \<open>play()\<close> promise.\<close>

definition WebcamRecorder_togglePlayback :: "component \<Rightarrow> component \<times> playback_wait option" where
  "WebcamRecorder_togglePlayback st =
     (case mediaRef st of
        None \<Rightarrow> (st, None)
      | Some el \<Rightarrow>
         (if isPlaying st
          then (let st1 = st\<lparr>mediaRef := Some (el\<lparr>el_paused := True\<rparr>), isPlaying := False\<rparr>
                in ((case playbackTimerRef st1 of Some h \<Rightarrow> clearInterval h st1 | None \<Rightarrow> st1), None))
          else (st\<lparr>mediaRef := Some (el\<lparr>el_playCalls := Suc (el_playCalls el)\<rparr>)\<rparr>, Some PlayPromise)))"

definition WebcamRecorder_togglePlayback_resume :: "play_outcome \<Rightarrow> component \<Rightarrow> component" where
  "WebcamRecorder_togglePlayback_resume outcome st =
     (case outcome of
        PlayResolves \<Rightarrow>
          (let st1 = (case mediaRef st of
                        Some el \<Rightarrow> st\<lparr>mediaRef := Some (el\<lparr>el_paused := False\<rparr>)\<rparr>
                      | None \<Rightarrow> st);
               st2 = st1\<lparr>isPlaying := True\<rparr>;
               st3 = (case playbackTimerRef st2 of Some h \<Rightarrow> clearInterval h st2 | None \<Rightarrow> st2);
               (h, st4) = setInterval st3
           in st4\<lparr>playbackTimerRef := Some h\<rparr>)
      | PlayRejects message \<Rightarrow> st\<lparr>isPlaying := False\<rparr>)"

section \<open>Initial states, rendering and sessions\<close>

text \<open>The \<open>useState\<close> and \<open>useRef\<close> defaults of a component before it is mounted.\<close>

definition component_initial :: "mediaType \<Rightarrow> component" where
  "component_initial defaultType =
     \<lparr>mediaType = defaultType, isRecording = False, recordedBlob = None, recordingTime = 0,
      error = None, isPlaying = False, currentTime = 0, duration = 0, mediaUrl = None,
      volume = 0.5, isMuted = False, previousVolume = 0.5, isLoading = False,
      transcribedText = None, isMediaRecorderSupported = True, isTranscribing = False,
      transcriptionProgress = 0, isWhisperSupportedState = True, isMediaLoaded = False,
      isPlaybackInProgress = False, uploadProgress = 0, uploadError = None,
      analysisMetrics = zero_metrics, mediaRef = None, mediaRecorderRef = None,
      streamRef = None, timerRef = None, playbackTimerRef = None, chunksRef = [],
      activeTimers = {}, liveStreams = {}, liveUrls = {}, nextId = 0, gumCalls = 0,
      analysisTimeouts = [], recordingComplete = [], emitted = []\<rparr>"

text \<open>
  The mount of \<open>MediaRecorder\<close>: the effects of its first render, in the order of the
  source. The first stores \<open>typeof window.MediaRecorder !== "undefined"\<close> and
  \<open>isWhisperSupported()\<close> and, where the latter holds, preloads the library with
  \<open>initWhisper\<close>, clearing \<open>isWhisperSupportedState\<close> again when that promise is
  rejected. The effect on \<open>mediaType\<close> calls \<open>resetRecording\<close>, which acquires a
  stream, and the last effect calls \<open>startMediaStream\<close>, which acquires another. All of
  them belong to the first render, and run in the browser, where \<open>window\<close> exists.
\<close>

definition MediaRecorder_mount ::
    "env \<Rightarrow> whisper_env \<Rightarrow> mediaType \<Rightarrow> whisper_module \<Rightarrow> component \<times> whisper_module" where
  "MediaRecorder_mount env wenv defaultType m =
     (let st0 = component_initial defaultType;
          st1 = st0\<lparr>isMediaRecorderSupported := windowMediaRecorder env,
                    isWhisperSupportedState := isWhisperSupported wenv\<rparr>;
          (st2, m1) =
            (if isWhisperSupported wenv
             then (let (r, m') = await_initWhisper wenv m in
                   case r of
                     Some (Rejected e) \<Rightarrow> (st1\<lparr>isWhisperSupportedState := False\<rparr>, m')
                   | _ \<Rightarrow> (st1, m'))
             else (st1, m));
          st3 = MediaRecorder_resetRecording env st2
      in (MediaRecorder_startMediaStream env (render_of st0) st3, m1))"

text \<open>
  The playback element is part of the rendered tree exactly when a recording exists and
  none is in progress; React fills the ref when the element mounts and clears it when the
  element unmounts.
\<close>

definition new_element :: media_element where
  "new_element = \<lparr>el_src = None, el_paused = True, el_currentTime = 0, el_volume = 1,
     el_playCalls = 0\<rparr>"

definition render :: "component \<Rightarrow> component" where
  "render st =
     (if \<not> isRecording st \<and> recordedBlob st \<noteq> None
      then (case mediaRef st of None \<Rightarrow> st\<lparr>mediaRef := Some new_element\<rparr> | Some _ \<Rightarrow> st)
      else st\<lparr>mediaRef := None\<rparr>)"

text \<open>
  A recording session: \<open>startRecording\<close> with a stream held starts the recorder, the
  recorder delivers its data events, the user clicks Stop, and the recorder, if that
  click has stopped it, fires its \<open>stop\<close> event.
\<close>

definition deliver :: "blob option list \<Rightarrow> component \<Rightarrow> component" where
  "deliver evs st = foldl (\<lambda>s e. ondataavailable e s) st evs"

definition MediaRecorder_session ::
    "env \<Rightarrow> whisper_env \<Rightarrow> speech_env \<Rightarrow> blob option list \<Rightarrow> component \<times> whisper_module
       \<Rightarrow> component \<times> whisper_module" where
  "MediaRecorder_session env wenv senv evs sm =
     (let st1 = deliver evs (MediaRecorder_record env (fst sm));
          st2 = MediaRecorder_stopRecording env st1
      in case mediaRecorderRef st2 of
           Some r \<Rightarrow>
             (if isRecording st1 \<and> \<not> isRecording st2
              then MediaRecorder_onstop wenv senv r (st2, snd sm)
              else (st2, snd sm))
         | None \<Rightarrow> (st2, snd sm))"

definition AudioRecorder_session :: "env \<Rightarrow> blob option list \<Rightarrow> component \<Rightarrow> component" where
  "AudioRecorder_session env evs st =
     (let st1 = deliver evs (AudioRecorder_record env st);
          st2 = AudioRecorder_stopRecording env st1
      in case mediaRecorderRef st2 of
           Some r \<Rightarrow> (if isRecording st1 \<and> \<not> isRecording st2 then AudioRecorder_onstop r st2 else st2)
         | None \<Rightarrow> st2)"

definition WebcamRecorder_session :: "env \<Rightarrow> blob option list \<Rightarrow> component \<Rightarrow> component" where
  "WebcamRecorder_session env evs st =
     (let st1 = foldl (\<lambda>s e. WebcamRecorder_ondataavailable e s) (WebcamRecorder_record env st) evs;
          st2 = WebcamRecorder_stopRecording env st1
      in if isRecording st1 \<and> \<not> isRecording st2 then WebcamRecorder_onstop st2 else st2)"

definition non_empty_chunk :: "blob option \<Rightarrow> bool" where
  "non_empty_chunk e = (case e of Some b \<Rightarrow> blob_size b > 0 | None \<Rightarrow> False)"

section \<open>Example browsers\<close>

text \<open>
  Concrete environments for running the components: a browser that grants every request
  and supports every MIME type, one whose user refuses the microphone and camera, a page
  on which the transcription library loads from the script but whose pipeline throws, a
  page on which the script fails to load, a speech recogniser that hears one final
  result, one that reports an error after an interim result, and a browser that has no
  speech recognition.
\<close>

definition granting_browser :: env where
  "granting_browser = \<lparr>getUserMedia = (\<lambda>k. Granted), windowMediaRecorder = True,
     isTypeSupported = (\<lambda>t. True), constructorMessage = [], inactiveStopThrows = True,
     mathRandom = (\<lambda>k. 0.5), audioContextAvailable = True, audioContextMessage = [],
     avgVolume = 64\<rparr>"

definition refusing_browser :: env where
  "refusing_browser =
     granting_browser\<lparr>getUserMedia := (\<lambda>k. Refused ''NotAllowedError'' ''Permission denied'')\<rparr>"

definition loading_whisper :: whisper_env where
  "loading_whisper = \<lparr>windowDefined = True, webAssembly = True, typeofURL = ''function'',
     windowTransformers = None, loadedTransformers = Some 0,
     scriptOutcome = ScriptLoads, pipelineError = None, pipelineResult = Inl ''out of memory''\<rparr>"

definition failing_script :: whisper_env where
  "failing_script = \<lparr>windowDefined = True, webAssembly = True, typeofURL = ''function'',
     windowTransformers = None, loadedTransformers = None,
     scriptOutcome = ScriptFails, pipelineError = None, pipelineResult = Inr []\<rparr>"

definition hearing_speech :: speech_env where
  "hearing_speech = \<lparr>speechApi = True, recognitionThrows = None,
     speechEvents = [OnResult 0 [(True, ''hello'')], AudioEnded, OnEnd]\<rparr>"



text \<open>
  \<open>AudioRecorder\<close> and \<open>WebcamRecorder\<close> after their mount effect, which acquires the
  stream, and a component whose recording has finished and whose playback element is
  mounted, for media of duration \<open>d\<close>.
\<close>

definition AudioRecorder_ready :: "env \<Rightarrow> component" where
  "AudioRecorder_ready env =
     AudioRecorder_startMicrophone env (render_of (component_initial audio)) (component_initial audio)"

definition WebcamRecorder_ready :: "env \<Rightarrow> component" where
  "WebcamRecorder_ready env = WebcamRecorder_startCamera env (component_initial video)"

definition reviewing :: "mediaType \<Rightarrow> real \<Rightarrow> component" where
  "reviewing mt d =
     render ((component_initial mt)\<lparr>recordedBlob := Some (Blob [1, 2, 3] ''audio/webm''),
        mediaUrl := Some 0, liveUrls := {0}, nextId := 1, duration := d, isMediaLoaded := True\<rparr>)"

section \<open>The result blob of a recording session\<close>

lemma deliver_Nil: "deliver [] st = st"
  by (simp add: deliver_def)

lemma deliver_Cons: "deliver (e # evs) st = deliver evs (ondataavailable e st)"
  by (simp add: deliver_def)

lemma ondataavailable_chunks:
  "chunksRef (ondataavailable e st) = chunksRef st @ (if non_empty_chunk e then [the e] else [])"
  by (simp add: ondataavailable_def non_empty_chunk_def split: option.splits)

lemma ondataavailable_other:
  "isRecording (ondataavailable e st) = isRecording st"
  "recordedBlob (ondataavailable e st) = recordedBlob st"
  "mediaRecorderRef (ondataavailable e st) = mediaRecorderRef st"
  "error (ondataavailable e st) = error st"
  "mediaType (ondataavailable e st) = mediaType st"
  by (simp_all add: ondataavailable_def split: option.splits)

lemma deliver_chunks:
  "chunksRef (deliver evs st) = chunksRef st @ map the (filter non_empty_chunk evs)"
  by (induction evs arbitrary: st) (simp_all add: deliver_Nil deliver_Cons ondataavailable_chunks)

lemma deliver_other:
  "isRecording (deliver evs st) = isRecording st"
  "recordedBlob (deliver evs st) = recordedBlob st"
  "mediaRecorderRef (deliver evs st) = mediaRecorderRef st"
  "error (deliver evs st) = error st"
  "mediaType (deliver evs st) = mediaType st"
  by (induction evs arbitrary: st; simp add: deliver_Nil deliver_Cons ondataavailable_other)+

text \<open>
  Stopping leaves the chunk buffer alone, so a chunk that arrives between the click on
  Stop and the recorder's \<open>stop\<close> event is kept like one that arrives before the click.
\<close>

lemma MediaRecorder_stopRecording_chunksRef:
  "chunksRef (MediaRecorder_stopRecording env st) = chunksRef st"
  by (cases "mediaRecorderRef st")
     (simp_all add: MediaRecorder_stopRecording_def clearTimers_def clearInterval_def Let_def
        split: option.splits)

lemma AudioRecorder_stopRecording_chunksRef:
  "chunksRef (AudioRecorder_stopRecording env st) = chunksRef st"
  by (cases "mediaRecorderRef st")
     (simp_all add: AudioRecorder_stopRecording_def AudioRecorder_stopMediaTracks_def
        stop_tracks_def clearInterval_def Let_def split: option.splits)

lemma new_Blob_size: "blob_size (new_Blob parts t) = sum_list (map blob_size parts)"
  by (induction parts) (simp_all add: new_Blob_def blob_size_def)

lemma chunks_positive:
  "(blob_size (new_Blob (map the (filter non_empty_chunk evs)) t) = 0) =
     (filter non_empty_chunk evs = [])"
proof (induction evs)
  case Nil
  then show ?case by (simp add: new_Blob_size)
next
  case (Cons e evs)
  then show ?case
    by (cases e) (auto simp add: new_Blob_size non_empty_chunk_def)
qed

lemma clearTimers_other:
  "chunksRef (clearTimers st) = chunksRef st"
  "recordedBlob (clearTimers st) = recordedBlob st"
  "mediaRecorderRef (clearTimers st) = mediaRecorderRef st"
  "isRecording (clearTimers st) = isRecording st"
  "error (clearTimers st) = error st"
  "mediaType (clearTimers st) = mediaType st"
  by (simp_all add: clearTimers_def clearInterval_def Let_def split: option.splits)

lemma performTranscription_blob:
  "recordedBlob (tr_component (performTranscription wenv senv st m)) = recordedBlob st"
  by (simp add: performTranscription_def Let_def split: prod.splits option.splits sum.splits)

lemma MediaRecorder_record_started:
  assumes "isRecording (MediaRecorder_record env st)" and "\<not> isRecording st"
  shows "\<exists>r. mediaRecorderRef (MediaRecorder_record env st) = Some r \<and> rec_recording r"
    and "chunksRef (MediaRecorder_record env st) = []"
    and "recordedBlob (MediaRecorder_record env st) = recordedBlob st"
  using assms
  by (auto simp add: MediaRecorder_record_def Let_def setInterval_def split: if_splits)

lemma MediaRecorder_onstop_blob:
  "recordedBlob (fst (MediaRecorder_onstop wenv senv r (st, m))) =
     (if chunksRef st = [] \<or> blob_size (new_Blob (chunksRef st) (rec_mimeType r)) = 0
      then recordedBlob st else Some (new_Blob (chunksRef st) (rec_mimeType r)))"
  by (simp add: MediaRecorder_onstop_def Let_def revokeMediaUrl_def revokeObjectURL_def
        createObjectURL_def performTranscription_blob split: prod.splits option.splits)

lemma MediaRecorder_onstop_empty:
  "chunksRef st = [] \<Longrightarrow>
   fst (MediaRecorder_onstop wenv senv r (st, m)) =
     st\<lparr>error := Some (''No '' @ mediaType_str (mediaType st) @ '' data was recorded. Please try again.'')\<rparr>"
  by (simp add: MediaRecorder_onstop_def Let_def)

lemma MediaRecorder_session_started:
  assumes "\<not> isRecording st" and "isRecording (MediaRecorder_record env st)"
  shows "\<exists>r st2. MediaRecorder_session env wenv senv evs (st, m) = MediaRecorder_onstop wenv senv r (st2, m)
     \<and> chunksRef st2 = map the (filter non_empty_chunk evs)
     \<and> recordedBlob st2 = recordedBlob st \<and> mediaType st2 = mediaType st"
proof -
  let ?st0 = "MediaRecorder_record env st"
  let ?st1 = "deliver evs ?st0"
  let ?st2 = "MediaRecorder_stopRecording env ?st1"
  from MediaRecorder_record_started [OF assms(2) assms(1)]
  obtain r where r: "mediaRecorderRef ?st0 = Some r" "rec_recording r"
    and c: "chunksRef ?st0 = []" and b: "recordedBlob ?st0 = recordedBlob st"
    by blast
  have mt: "mediaType ?st0 = mediaType st"
    by (simp add: MediaRecorder_record_def Let_def setInterval_def split: prod.splits)
  have rec1: "isRecording ?st1" "mediaRecorderRef ?st1 = Some r"
    using assms(2) r by (simp_all add: deliver_other)
  have st2: "?st2 = clearTimers (?st1\<lparr>mediaRecorderRef := Some (r\<lparr>rec_recording := False\<rparr>),
      isRecording := False\<rparr>)"
    using rec1 r by (simp add: MediaRecorder_stopRecording_def)
  have "mediaRecorderRef ?st2 = Some (r\<lparr>rec_recording := False\<rparr>)" "\<not> isRecording ?st2"
    "chunksRef ?st2 = map the (filter non_empty_chunk evs)" "recordedBlob ?st2 = recordedBlob st"
    "mediaType ?st2 = mediaType st"
    unfolding st2 using c b mt by (simp_all add: clearTimers_other deliver_chunks deliver_other)
  then show ?thesis
    using rec1 by (auto simp add: MediaRecorder_session_def Let_def)
qed

lemma MediaRecorder_session_blob:
  assumes "\<not> isRecording st" and "recordedBlob st = None"
    and "isRecording (MediaRecorder_record env st)"
  shows "(recordedBlob (fst (MediaRecorder_session env wenv senv evs (st, m))) \<noteq> None)
           = (\<exists>e\<in>set evs. non_empty_chunk e)"
    and "\<not> (\<exists>e\<in>set evs. non_empty_chunk e) \<Longrightarrow>
         error (fst (MediaRecorder_session env wenv senv evs (st, m))) =
           Some (''No '' @ mediaType_str (mediaType st) @ '' data was recorded. Please try again.'')"
proof -
  from MediaRecorder_session_started [OF assms(1) assms(3), of wenv senv evs m]
  obtain r st2 where s: "MediaRecorder_session env wenv senv evs (st, m) = MediaRecorder_onstop wenv senv r (st2, m)"
    and c: "chunksRef st2 = map the (filter non_empty_chunk evs)"
    and b: "recordedBlob st2 = recordedBlob st" and mt: "mediaType st2 = mediaType st"
    by blast
  show "(recordedBlob (fst (MediaRecorder_session env wenv senv evs (st, m))) \<noteq> None)
           = (\<exists>e\<in>set evs. non_empty_chunk e)"
    unfolding s MediaRecorder_onstop_blob c chunks_positive
    using assms(2) b by (simp add: filter_empty_conv)
  show "error (fst (MediaRecorder_session env wenv senv evs (st, m))) =
           Some (''No '' @ mediaType_str (mediaType st) @ '' data was recorded. Please try again.'')"
    if "\<not> (\<exists>e\<in>set evs. non_empty_chunk e)"
  proof -
    from that have "chunksRef st2 = []" unfolding c by (simp add: filter_empty_conv)
    then show ?thesis unfolding s by (simp add: MediaRecorder_onstop_empty mt)
  qed
qed

lemma AudioRecorder_record_started:
  assumes "isRecording (AudioRecorder_record env st)" and "\<not> isRecording st"
  shows "\<exists>r. mediaRecorderRef (AudioRecorder_record env st) = Some r \<and> rec_recording r"
    and "chunksRef (AudioRecorder_record env st) = []"
    and "recordedBlob (AudioRecorder_record env st) = recordedBlob st"
  using assms
  by (auto simp add: AudioRecorder_record_def Let_def setInterval_def split: if_splits)

lemma AudioRecorder_onstop_blob:
  "recordedBlob (AudioRecorder_onstop r st) =
     (if chunksRef st = [] \<or> blob_size (new_Blob (chunksRef st) (rec_mimeType r)) = 0
      then recordedBlob st else Some (new_Blob (chunksRef st) (rec_mimeType r)))"
  by (simp add: AudioRecorder_onstop_def Let_def revokeObjectURL_def createObjectURL_def
        split: prod.splits option.splits)

lemma AudioRecorder_onstop_empty:
  "chunksRef st = [] \<Longrightarrow>
   AudioRecorder_onstop r st = st\<lparr>error := Some ''No audio data was recorded. Please try again.''\<rparr>"
  by (simp add: AudioRecorder_onstop_def)

lemma AudioRecorder_stopMediaTracks_other:
  "chunksRef (AudioRecorder_stopMediaTracks st) = chunksRef st"
  "recordedBlob (AudioRecorder_stopMediaTracks st) = recordedBlob st"
  "mediaRecorderRef (AudioRecorder_stopMediaTracks st) = mediaRecorderRef st"
  "isRecording (AudioRecorder_stopMediaTracks st) = isRecording st"
  by (simp_all add: AudioRecorder_stopMediaTracks_def stop_tracks_def split: option.splits)

lemma AudioRecorder_session_started:
  assumes "\<not> isRecording st" and "isRecording (AudioRecorder_record env st)"
  shows "\<exists>r st2. AudioRecorder_session env evs st = AudioRecorder_onstop r st2
     \<and> chunksRef st2 = map the (filter non_empty_chunk evs)
     \<and> recordedBlob st2 = recordedBlob st"
proof -
  let ?st0 = "AudioRecorder_record env st"
  let ?st1 = "deliver evs ?st0"
  let ?st2 = "AudioRecorder_stopRecording env ?st1"
  from AudioRecorder_record_started [OF assms(2) assms(1)]
  obtain r where r: "mediaRecorderRef ?st0 = Some r" "rec_recording r"
    and c: "chunksRef ?st0 = []" and b: "recordedBlob ?st0 = recordedBlob st"
    by blast
  have rec1: "isRecording ?st1" "mediaRecorderRef ?st1 = Some r"
    using assms(2) r by (simp_all add: deliver_other)
  have "mediaRecorderRef ?st2 = Some (r\<lparr>rec_recording := False\<rparr>)" "\<not> isRecording ?st2"
    "chunksRef ?st2 = map the (filter non_empty_chunk evs)" "recordedBlob ?st2 = recordedBlob st"
    using rec1 r c b
    by (simp_all add: AudioRecorder_stopRecording_def Let_def AudioRecorder_stopMediaTracks_other
          clearInterval_def deliver_chunks deliver_other split: option.splits)
  then show ?thesis
    using rec1 by (auto simp add: AudioRecorder_session_def Let_def)
qed

lemma AudioRecorder_session_blob:
  assumes "\<not> isRecording st" and "recordedBlob st = None"
    and "isRecording (AudioRecorder_record env st)"
  shows "(recordedBlob (AudioRecorder_session env evs st) \<noteq> None) = (\<exists>e\<in>set evs. non_empty_chunk e)"
    and "\<not> (\<exists>e\<in>set evs. non_empty_chunk e) \<Longrightarrow>
         error (AudioRecorder_session env evs st) = Some ''No audio data was recorded. Please try again.''"
proof -
  from AudioRecorder_session_started [OF assms(1) assms(3), of evs]
  obtain r st2 where s: "AudioRecorder_session env evs st = AudioRecorder_onstop r st2"
    and c: "chunksRef st2 = map the (filter non_empty_chunk evs)"
    and b: "recordedBlob st2 = recordedBlob st"
    by blast
  show "(recordedBlob (AudioRecorder_session env evs st) \<noteq> None) = (\<exists>e\<in>set evs. non_empty_chunk e)"
    unfolding s AudioRecorder_onstop_blob c chunks_positive
    using assms(2) b by (simp add: filter_empty_conv)
  show "error (AudioRecorder_session env evs st) = Some ''No audio data was recorded. Please try again.''"
    if "\<not> (\<exists>e\<in>set evs. non_empty_chunk e)"
  proof -
    from that have "chunksRef st2 = []" unfolding c by (simp add: filter_empty_conv)
    then show ?thesis unfolding s by (simp add: AudioRecorder_onstop_empty)
  qed
qed

text \<open>
  In \<open>MediaRecorder\<close> and in \<open>AudioRecorder\<close>, a session that starts from the state in
  which the Start button is shown (not recording, no recorded blob) and whose recorder
  starts ends with a recorded blob if and only if the recorder delivered at least one
  non-empty data chunk; when it delivered none, no blob is produced and the error message
  for an empty recording is set.
\<close>

lemma session_blob_iff_chunk:
  assumes "\<not> isRecording st" and "recordedBlob st = None"
  shows
   "(isRecording (MediaRecorder_record env st) \<longrightarrow>
      (recordedBlob (fst (MediaRecorder_session env wenv senv evs (st, m))) \<noteq> None)
         = (\<exists>e\<in>set evs. non_empty_chunk e)
      \<and> (\<not> (\<exists>e\<in>set evs. non_empty_chunk e) \<longrightarrow>
           recordedBlob (fst (MediaRecorder_session env wenv senv evs (st, m))) = None
         \<and> error (fst (MediaRecorder_session env wenv senv evs (st, m))) =
             Some (''No '' @ mediaType_str (mediaType st) @ '' data was recorded. Please try again.'')))
    \<and> (isRecording (AudioRecorder_record env st) \<longrightarrow>
      (recordedBlob (AudioRecorder_session env evs st) \<noteq> None) = (\<exists>e\<in>set evs. non_empty_chunk e)
      \<and> (\<not> (\<exists>e\<in>set evs. non_empty_chunk e) \<longrightarrow>
           recordedBlob (AudioRecorder_session env evs st) = None
         \<and> error (AudioRecorder_session env evs st) = Some ''No audio data was recorded. Please try again.''))"
proof (intro conjI impI)
  assume started: "isRecording (MediaRecorder_record env st)"
  note facts = MediaRecorder_session_blob [OF assms started, where wenv = wenv and senv = senv
      and evs = evs and m = m]
  show "(recordedBlob (fst (MediaRecorder_session env wenv senv evs (st, m))) \<noteq> None)
         = (\<exists>e\<in>set evs. non_empty_chunk e)"
    by (rule facts(1))
  assume none: "\<not> (\<exists>e\<in>set evs. non_empty_chunk e)"
  show "recordedBlob (fst (MediaRecorder_session env wenv senv evs (st, m))) = None"
    using facts(1) none by blast
  show "error (fst (MediaRecorder_session env wenv senv evs (st, m))) =
        Some (''No '' @ mediaType_str (mediaType st) @ '' data was recorded. Please try again.'')"
    by (rule facts(2) [OF none])
next
  assume started: "isRecording (AudioRecorder_record env st)"
  note facts = AudioRecorder_session_blob [OF assms started, where evs = evs]
  show "(recordedBlob (AudioRecorder_session env evs st) \<noteq> None) = (\<exists>e\<in>set evs. non_empty_chunk e)"
    by (rule facts(1))
  assume none: "\<not> (\<exists>e\<in>set evs. non_empty_chunk e)"
  show "recordedBlob (AudioRecorder_session env evs st) = None"
    using facts(1) none by blast
  show "error (AudioRecorder_session env evs st) = Some ''No audio data was recorded. Please try again.''"
    by (rule facts(2) [OF none])
qed

text \<open>
  \<open>WebcamRecorder\<close> has no such check: its \<open>stop\<close> handler builds and stores the blob
  whatever the chunks are, and sets no error.
\<close>

lemma WebcamRecorder_onstop_blob:
  "recordedBlob (WebcamRecorder_onstop st) = Some (new_Blob (chunksRef st) ''video/webm'')"
  "error (WebcamRecorder_onstop st) = error st"
  by (simp_all add: WebcamRecorder_onstop_def Let_def revokeObjectURL_def createObjectURL_def
        split: prod.splits option.splits)

text \<open>
  Claim C1, at the failing input: \<open>WebcamRecorder\<close> holding its stream,
  \<open>startRecording()\<close>, no data chunk, \<open>stopRecording()\<close>. The session ends with an empty
  blob as its result, handed to \<open>onRecordingComplete\<close>, and with no error. The same
  session of \<open>MediaRecorder\<close> (after its mount) and of \<open>AudioRecorder\<close> ends without a
  blob and with the message for an empty recording.
\<close>

theorem C1_WebcamRecorder_empty_session_yields_blob:
  "recordedBlob (WebcamRecorder_session granting_browser [] (WebcamRecorder_ready granting_browser))
     = Some (Blob [] ''video/webm'')
   \<and> error (WebcamRecorder_session granting_browser [] (WebcamRecorder_ready granting_browser)) = None
   \<and> recordingComplete (WebcamRecorder_session granting_browser [] (WebcamRecorder_ready granting_browser))
     = [(Blob [] ''video/webm'', None)]
   \<and> recordedBlob (fst (MediaRecorder_session granting_browser loading_whisper hearing_speech []
        (MediaRecorder_mount granting_browser loading_whisper video whisper_initial))) = None
   \<and> error (fst (MediaRecorder_session granting_browser loading_whisper hearing_speech []
        (MediaRecorder_mount granting_browser loading_whisper video whisper_initial)))
     = Some ''No video data was recorded. Please try again.''
   \<and> recordedBlob (AudioRecorder_session granting_browser [] (AudioRecorder_ready granting_browser)) = None
   \<and> error (AudioRecorder_session granting_browser [] (AudioRecorder_ready granting_browser))
     = Some ''No audio data was recorded. Please try again.''"
  by code_simp
section \<open>The transcription adapter\<close>



text \<open>
  The mount stores \<open>isWhisperSupported()\<close> in \<open>isWhisperSupportedState\<close>, and the
  acquisitions of the mount leave the cell alone: after the mount it is set only where
  \<open>isWhisperSupported()\<close> holds and the preload of the library was not rejected.
\<close>

lemma MediaRecorder_startMediaStream_whisper:
  "isWhisperSupportedState (MediaRecorder_startMediaStream env cl st) = isWhisperSupportedState st"
  by (cases "getUserMedia env (gumCalls st)")
     (simp_all add: MediaRecorder_startMediaStream_def MediaRecorder_updateAnalysis_def
        new_stream_def Let_def)

lemma MediaRecorder_stopRecording_whisper:
  "isWhisperSupportedState (MediaRecorder_stopRecording env st) = isWhisperSupportedState st"
  by (cases "mediaRecorderRef st")
     (simp_all add: MediaRecorder_stopRecording_def clearTimers_def clearInterval_def Let_def
        split: option.splits)




lemma MediaRecorder_mount_module:
  "\<not> isWhisperSupported wenv \<Longrightarrow> snd (MediaRecorder_mount env wenv mt m) = m"
  by (simp add: MediaRecorder_mount_def Let_def split: prod.splits)

text \<open>
  No handler of a recording session sets the cell afterwards: it keeps the value that the
  mount has left.
\<close>

lemma MediaRecorder_record_whisper:
  "isWhisperSupportedState (MediaRecorder_record env st) = isWhisperSupportedState st"
  by (simp add: MediaRecorder_record_def setInterval_def Let_def)

lemma MediaRecorder_startRecording_whisper:
  "MediaRecorder_startRecording n env st = Some st' \<Longrightarrow>
   isWhisperSupportedState st' = isWhisperSupportedState st"
proof (induction n arbitrary: st)
  case 0
  then show ?case by simp
next
  case (Suc n)
  then show ?case
    by (auto simp add: Let_def MediaRecorder_record_whisper MediaRecorder_startMediaStream_whisper
          split: if_splits)
qed

lemma deliver_whisper:
  "isWhisperSupportedState (deliver evs st) = isWhisperSupportedState st"
  by (induction evs arbitrary: st)
     (simp_all add: deliver_def ondataavailable_def split: option.splits)

lemma performTranscription_whisper:
  "isWhisperSupportedState (tr_component (performTranscription wenv senv st m)) = isWhisperSupportedState st"
  by (simp add: performTranscription_def Let_def split: prod.splits option.splits sum.splits)

lemma MediaRecorder_onstop_whisper:
  "isWhisperSupportedState (fst (MediaRecorder_onstop wenv senv r (st, m))) = isWhisperSupportedState st"
  by (simp add: MediaRecorder_onstop_def Let_def revokeMediaUrl_def revokeObjectURL_def
        createObjectURL_def performTranscription_whisper split: prod.splits option.splits)

lemma MediaRecorder_session_whisper:
  "isWhisperSupportedState (fst (MediaRecorder_session env wenv senv evs (st, m))) = isWhisperSupportedState st"
  by (simp add: MediaRecorder_session_def Let_def MediaRecorder_onstop_whisper
        MediaRecorder_stopRecording_whisper deliver_whisper MediaRecorder_record_whisper
        split: option.splits)





lemma speech_step_quiet:
  "\<not> resolves ev \<Longrightarrow> resolved (speech_step s ev) = resolved s"
  by (cases ev) simp_all

lemma speech_run_quiet:
  "\<forall>x\<in>set evs. \<not> resolves x \<Longrightarrow> resolved (foldl speech_step s evs) = resolved s"
  by (induction evs arbitrary: s) (simp_all add: speech_step_quiet)



lemma transcribeAudioFallback_unsettled:
  assumes "speechApi senv" and "recognitionThrows senv = None"
    and "\<forall>x\<in>set (speechEvents senv). \<not> resolves x"
  shows "transcribeAudioFallback senv = None"
  using assms speech_run_quiet [OF assms(3)]
  by (simp add: transcribeAudioFallback_def)




section \<open>The retry of \<open>startRecording\<close>\<close>

text \<open>
  \<open>MediaRecorder\<close> re-invokes \<open>startRecording\<close> only when the stream has been acquired:
  two invocations always suffice, and when the acquisition is refused one does, with the
  error set and nothing recorded.
\<close>

lemma MediaRecorder_startRecording_returns:
  "MediaRecorder_startRecording (Suc (Suc n)) env st \<noteq> None"
  by (simp add: Let_def)

lemma MediaRecorder_startMediaStream_refused:
  "getUserMedia env (gumCalls st) = Refused name message \<Longrightarrow> streamRef st = None \<Longrightarrow>
   streamRef (MediaRecorder_startMediaStream env cl st) = None \<and>
   error (MediaRecorder_startMediaStream env cl st) \<noteq> None \<and>
   isRecording (MediaRecorder_startMediaStream env cl st) = isRecording st \<and>
   activeTimers (MediaRecorder_startMediaStream env cl st) = activeTimers st"
  by (simp add: MediaRecorder_startMediaStream_def Let_def)

lemma MediaRecorder_startRecording_refused:
  assumes "getUserMedia env (gumCalls st) = Refused name message" and "streamRef st = None"
    and "isMediaRecorderSupported st"
  shows "MediaRecorder_startRecording (Suc n) env st =
           Some (MediaRecorder_startMediaStream env (render_of st) st)"
  using assms MediaRecorder_startMediaStream_refused [OF assms(1) assms(2), of "render_of st"]
  by (simp add: Let_def)

text \<open>
  \<open>AudioRecorder\<close> re-invokes it whatever happened: while no stream is held and every
  acquisition is refused, no number of invocations is the last one.
\<close>

lemma AudioRecorder_startMicrophone_refused:
  "getUserMedia env (gumCalls st) = Refused name message \<Longrightarrow> streamRef st = None \<Longrightarrow>
   streamRef (AudioRecorder_startMicrophone env cl st) = None \<and>
   error (AudioRecorder_startMicrophone env cl st) \<noteq> None"
  by (simp add: AudioRecorder_startMicrophone_def Let_def)

lemma AudioRecorder_startRecording_unbounded:
  "\<forall>k. \<exists>name message. getUserMedia env k = Refused name message \<Longrightarrow> streamRef st = None \<Longrightarrow>
   AudioRecorder_startRecording n env st = None"
proof (induction n arbitrary: st)
  case 0
  then show ?case by simp
next
  case (Suc n)
  from Suc.prems(1) obtain name message where "getUserMedia env (gumCalls st) = Refused name message"
    by blast
  from AudioRecorder_startMicrophone_refused [OF this Suc.prems(2)]
  have "streamRef (AudioRecorder_startMicrophone env (render_of st) st) = None"
    by simp
  with Suc show ?case by simp
qed

lemma WebcamRecorder_startCamera_refused:
  "getUserMedia env (gumCalls st) = Refused name message \<Longrightarrow> streamRef st = None \<Longrightarrow>
   streamRef (WebcamRecorder_startCamera env st) = None"
  by (simp add: WebcamRecorder_startCamera_def Let_def)

lemma WebcamRecorder_startRecording_unbounded:
  "\<forall>k. \<exists>name message. getUserMedia env k = Refused name message \<Longrightarrow> streamRef st = None \<Longrightarrow>
   WebcamRecorder_startRecording n env st = None"
proof (induction n arbitrary: st)
  case 0
  then show ?case by simp
next
  case (Suc n)
  from Suc.prems(1) obtain name message where "getUserMedia env (gumCalls st) = Refused name message"
    by blast
  from WebcamRecorder_startCamera_refused [OF this Suc.prems(2)] Suc show ?case
    by simp
qed

text \<open>
  Claim C3, at the failing input: \<open>AudioRecorder\<close> without a stream, in a browser whose
  user refuses the microphone. For every bound \<open>n\<close>, the \<open>n\<close>-th invocation of
  \<open>startRecording\<close> schedules another one: the retry is not capped. \<open>MediaRecorder\<close> in
  the same browser is done after its first invocation, with the error set.
\<close>

theorem C3_AudioRecorder_retry_unbounded:
  "AudioRecorder_startRecording n refusing_browser (component_initial audio) = None
   \<and> map_option error (MediaRecorder_startRecording 1 refusing_browser (component_initial audio))
     = Some (Some ''Failed to access audio. Please grant permission to use your microphone/camera.'')"
proof
  show "AudioRecorder_startRecording n refusing_browser (component_initial audio) = None"
    by (rule AudioRecorder_startRecording_unbounded)
       (simp_all add: refusing_browser_def granting_browser_def component_initial_def)
  show "map_option error (MediaRecorder_startRecording 1 refusing_browser (component_initial audio))
     = Some (Some ''Failed to access audio. Please grant permission to use your microphone/camera.'')"
    by (simp add: MediaRecorder_startMediaStream_def refusing_browser_def granting_browser_def
          component_initial_def render_of_def mediaType_str_def Let_def)
qed

section \<open>\<open>togglePlayback\<close> while an earlier call is settling\<close>

text \<open>
  \<open>MediaRecorder\<close> raises \<open>isPlaybackInProgress\<close> before its first \<open>await\<close> and keeps it
  raised until the call has settled; an invocation that finds it raised changes nothing.
\<close>

lemma MediaRecorder_togglePlayback_busy:
  "isPlaybackInProgress st \<Longrightarrow> MediaRecorder_togglePlayback st = (st, None)"
  by (simp add: MediaRecorder_togglePlayback_def)

lemma MediaRecorder_togglePlayback_raises:
  "MediaRecorder_togglePlayback st = (st1, Some w) \<Longrightarrow> isPlaybackInProgress st1"
  by (auto simp add: MediaRecorder_togglePlayback_def Let_def split: if_splits option.splits)

lemma MediaRecorder_togglePlayback_resume_keeps:
  "isPlaybackInProgress st \<Longrightarrow> MediaRecorder_togglePlayback_resume w outcome st = (st1, Some w1) \<Longrightarrow>
   isPlaybackInProgress st1"
  by (cases w; cases outcome)
     (auto simp add: MediaRecorder_togglePlayback_resume_def Let_def split: option.splits prod.splits)

lemma MediaRecorder_togglePlayback_twice:
  "MediaRecorder_togglePlayback st = (st1, Some w) \<Longrightarrow> MediaRecorder_togglePlayback st1 = (st1, None)"
  by (rule MediaRecorder_togglePlayback_busy) (rule MediaRecorder_togglePlayback_raises)

text \<open>
  Claim C4, at the failing input: \<open>WebcamRecorder\<close> reviewing a recording, not playing,
  and \<open>togglePlayback\<close> invoked twice before the first \<open>play()\<close> promise settles. The
  second invocation is not ignored: it asks the element to play a second time and waits
  for a second promise. The same two invocations of \<open>MediaRecorder\<close> ask once.
\<close>

theorem C4_WebcamRecorder_second_toggle_not_ignored:
  "snd (WebcamRecorder_togglePlayback (reviewing video 30)) = Some PlayPromise
   \<and> snd (WebcamRecorder_togglePlayback (fst (WebcamRecorder_togglePlayback (reviewing video 30))))
       = Some PlayPromise
   \<and> snd (MediaRecorder_togglePlayback (fst (MediaRecorder_togglePlayback (reviewing video 30))))
       = None
   \<and> map_option el_playCalls
        (mediaRef (fst (WebcamRecorder_togglePlayback (fst (WebcamRecorder_togglePlayback (reviewing video 30))))))
       = Some 2
   \<and> map_option el_playCalls
        (mediaRef (fst (MediaRecorder_togglePlayback (fst (MediaRecorder_togglePlayback (reviewing video 30))))))
       = Some 1"
  by (simp add: WebcamRecorder_togglePlayback_def MediaRecorder_togglePlayback_def reviewing_def
       render_def component_initial_def new_element_def Let_def)

section \<open>Seeking, volume and mute\<close>

text \<open>
  Claim C5 as stated fails: the handler does not clamp. With a playback element mounted
  and a duration of 30 seconds, seeking to \<open>duration + 10\<close> leaves the \<open>currentTime\<close>
  cell at 40.
\<close>

theorem C5_seek_past_end_counterexample:
  "currentTime (handleSliderChange [40] (reviewing audio 30)) = 40
   \<and> duration (handleSliderChange [40] (reviewing audio 30)) = 30
   \<and> \<not> currentTime (handleSliderChange [40] (reviewing audio 30))
        \<le> duration (handleSliderChange [40] (reviewing audio 30))"
  by (simp add: handleSliderChange_def reviewing_def render_def component_initial_def)

text \<open>
  Claim C5 as amended. With a playback element mounted, a seek to \<open>t\<close> stores \<open>t\<close>
  unchanged in the \<open>currentTime\<close> cell and assigns it to the element, and leaves the
  duration alone; so the resulting \<open>currentTime\<close> lies in \<open>[0, duration]\<close> exactly when
  \<open>t\<close> does, which is what the slider's own bounds (from 0 to \<open>max = duration\<close>) provide.
  Without an element the seek changes nothing.
\<close>

theorem C5_seek_stores_input:
  "(mediaRef st = Some el \<longrightarrow>
      currentTime (handleSliderChange (t # ts) st) = t
    \<and> map_option el_currentTime (mediaRef (handleSliderChange (t # ts) st)) = Some t
    \<and> duration (handleSliderChange (t # ts) st) = duration st
    \<and> ((0 \<le> currentTime (handleSliderChange (t # ts) st)
          \<and> currentTime (handleSliderChange (t # ts) st) \<le> duration (handleSliderChange (t # ts) st))
        = (0 \<le> t \<and> t \<le> duration st)))
   \<and> (mediaRef st = None \<longrightarrow> handleSliderChange (t # ts) st = st)"
  by (simp add: handleSliderChange_def)

theorem C5_seek_stores_input_witness:
  "mediaRef (reviewing audio 30) = Some new_element
   \<and> currentTime (handleSliderChange [12] (reviewing audio 30)) = 12
   \<and> 0 \<le> currentTime (handleSliderChange [12] (reviewing audio 30))
   \<and> currentTime (handleSliderChange [12] (reviewing audio 30))
        \<le> duration (handleSliderChange [12] (reviewing audio 30))
   \<and> mediaRef (component_initial audio) = None
   \<and> handleSliderChange [12] (component_initial audio) = component_initial audio"
  using C5_seek_stores_input [of "reviewing audio 30" new_element 12 "[]"]
    C5_seek_stores_input [of "component_initial audio" new_element 12 "[]"]
  by (simp add: reviewing_def render_def component_initial_def)

text \<open>
  Claim C6 as stated fails in its first half: \<open>setVolume(0)\<close> on an unmuted component
  leaves it unmuted.
\<close>

theorem C6_volume_zero_not_muted_counterexample:
  "\<not> isMuted (reviewing audio 30)
   \<and> \<not> isMuted (handleVolumeChange [0] (reviewing audio 30))
   \<and> volume (handleVolumeChange [0] (reviewing audio 30)) = 0"
  by (simp add: handleVolumeChange_def reviewing_def render_def component_initial_def)

text \<open>
  A level outside \<open>[0, 1]\<close> is refused by a mounted playback element: the handler has
  stored it in the \<open>volume\<close> cell by then, and ends before it comes to \<open>isMuted\<close>.
\<close>

lemma handleVolumeChange_out_of_range:
  assumes "mediaRef st = Some el" and "level < 0 \<or> 1 < level"
  shows "isMuted (handleVolumeChange (level # ls) st) = isMuted st"
    and "volume (handleVolumeChange (level # ls) st) = level"
    and "mediaRef (handleVolumeChange (level # ls) st) = Some el"
  using assms by (auto simp add: handleVolumeChange_def Let_def)

text \<open>
  Claim C6 as amended. \<open>setVolume(level)\<close> with a level in \<open>(0, 1]\<close> clears \<open>isMuted\<close>;
  \<open>setVolume(0)\<close> leaves \<open>isMuted\<close> as it was, while the \<open>volume\<close> cell and the effective
  volume become 0.
\<close>

theorem C6_volume_change_and_mute:
  "(0 < level \<and> level \<le> 1 \<longrightarrow> \<not> isMuted (handleVolumeChange (level # ls) st))
   \<and> isMuted (handleVolumeChange (0 # ls) st) = isMuted st
   \<and> volume (handleVolumeChange (0 # ls) st) = 0
   \<and> effectiveVolume (handleVolumeChange (0 # ls) st) = 0"
  by (simp add: handleVolumeChange_def effectiveVolume_def Let_def split: option.splits)

theorem C6_volume_change_and_mute_witness:
  "(0::real) < 0.3 \<and> (0.3::real) \<le> 1
   \<and> isMuted (toggleMute (reviewing audio 30))
   \<and> \<not> isMuted (handleVolumeChange [0.3] (toggleMute (reviewing audio 30)))
   \<and> isMuted (handleVolumeChange [0] (toggleMute (reviewing audio 30)))
   \<and> effectiveVolume (handleVolumeChange [0] (reviewing audio 30)) = 0"
  using C6_volume_change_and_mute [of "0.3" "[]" "toggleMute (reviewing audio 30)"]
    C6_volume_change_and_mute [of "0.3" "[]" "reviewing audio 30"]
  by (simp add: toggleMute_def reviewing_def render_def component_initial_def)

text \<open>
  Claim C7. For every volume \<open>v\<close> in \<open>(0, 1]\<close> and every unmuted component,
  \<open>setVolume(v)\<close>, \<open>toggleMute()\<close>, \<open>toggleMute()\<close> leaves the effective volume and the
  \<open>volume\<close> cell at exactly \<open>v\<close>, unmuted; in between, when a playback element is
  mounted, the component is muted, remembers \<open>v\<close> as \<open>previousVolume\<close> and plays at
  volume 0.
\<close>

theorem C7_mute_round_trip:
  assumes "0 < v" and "v \<le> 1" and "\<not> isMuted st"
  shows "effectiveVolume (toggleMute (toggleMute (handleVolumeChange [v] st))) = v
    \<and> volume (toggleMute (toggleMute (handleVolumeChange [v] st))) = v
    \<and> \<not> isMuted (toggleMute (toggleMute (handleVolumeChange [v] st)))
    \<and> (mediaRef st \<noteq> None \<longrightarrow>
          previousVolume (toggleMute (handleVolumeChange [v] st)) = v
        \<and> isMuted (toggleMute (handleVolumeChange [v] st))
        \<and> effectiveVolume (toggleMute (handleVolumeChange [v] st)) = 0)"
  using assms
  by (simp add: handleVolumeChange_def toggleMute_def effectiveVolume_def Let_def
        split: option.splits)

theorem C7_mute_round_trip_witness:
  "(0::real) < 0.7 \<and> (0.7::real) \<le> 1 \<and> \<not> isMuted (reviewing audio 30)
   \<and> mediaRef (reviewing audio 30) \<noteq> None
   \<and> effectiveVolume (toggleMute (toggleMute (handleVolumeChange [0.7] (reviewing audio 30)))) = 0.7
   \<and> effectiveVolume (toggleMute (handleVolumeChange [0.7] (reviewing audio 30))) = 0"
proof -
  have h: "(0::real) < 0.7" "(0.7::real) \<le> 1" "\<not> isMuted (reviewing audio 30)"
    "mediaRef (reviewing audio 30) \<noteq> None"
    by (simp_all add: reviewing_def render_def component_initial_def)
  from C7_mute_round_trip [OF h(1) h(2) h(3)] h show ?thesis
    by simp
qed

section \<open>What \<open>resetRecording\<close> releases\<close>

text \<open>
  \<open>MediaRecorder.resetRecording\<close> stops the recording, stops the tracks of the stream that
  \<open>streamRef\<close> holds, clears the two interval timers that \<open>timerRef\<close> and
  \<open>playbackTimerRef\<close> hold, revokes the playback URL and clears the derived cells before
  it acquires a fresh stream.
\<close>

lemma clearTimers_timers:
  "activeTimers (clearTimers st) = activeTimers st - set_option (timerRef st) - set_option (playbackTimerRef st)"
  "timerRef (clearTimers st) = None"
  "playbackTimerRef (clearTimers st) = None"
  "streamRef (clearTimers st) = streamRef st"
  "liveStreams (clearTimers st) = liveStreams st"
  "mediaUrl (clearTimers st) = mediaUrl st"
  "liveUrls (clearTimers st) = liveUrls st"
  "mediaRef (clearTimers st) = mediaRef st"
  "gumCalls (clearTimers st) = gumCalls st"
  by (cases "timerRef st"; cases "playbackTimerRef st";
      auto simp add: clearTimers_def clearInterval_def)+

lemma MediaRecorder_stopRecording_timers:
  "activeTimers (MediaRecorder_stopRecording env st) - set_option (timerRef (MediaRecorder_stopRecording env st))
      - set_option (playbackTimerRef (MediaRecorder_stopRecording env st))
   = activeTimers st - set_option (timerRef st) - set_option (playbackTimerRef st)"
  "streamRef (MediaRecorder_stopRecording env st) = streamRef st"
  "liveStreams (MediaRecorder_stopRecording env st) = liveStreams st"
  "mediaUrl (MediaRecorder_stopRecording env st) = mediaUrl st"
  "liveUrls (MediaRecorder_stopRecording env st) = liveUrls st"
  "mediaRef (MediaRecorder_stopRecording env st) = mediaRef st"
  "gumCalls (MediaRecorder_stopRecording env st) = gumCalls st"
  by (cases "mediaRecorderRef st"; auto simp add: MediaRecorder_stopRecording_def clearTimers_timers)+

lemma clearTimers_analysis:
  "analysisTimeouts (clearTimers st) = analysisTimeouts st"
  by (simp add: clearTimers_def clearInterval_def Let_def split: option.splits)

lemma MediaRecorder_stopRecording_analysis:
  "analysisTimeouts (MediaRecorder_stopRecording env st) = analysisTimeouts st"
  by (cases "mediaRecorderRef st") (simp_all add: MediaRecorder_stopRecording_def clearTimers_analysis)

lemma MediaRecorder_stopRecording_stops:
  "mediaRecorderRef st = Some r \<Longrightarrow> rec_recording r \<or> \<not> inactiveStopThrows env \<Longrightarrow>
   \<not> isRecording (MediaRecorder_stopRecording env st)"
  by (auto simp add: MediaRecorder_stopRecording_def clearTimers_other)

lemma MediaRecorder_stopMediaTracks_effect:
  "liveStreams (MediaRecorder_stopMediaTracks st) = liveStreams st - set_option (streamRef st)"
  "streamRef (MediaRecorder_stopMediaTracks st) = None"
  "activeTimers (MediaRecorder_stopMediaTracks st) = activeTimers st"
  "timerRef (MediaRecorder_stopMediaTracks st) = timerRef st"
  "playbackTimerRef (MediaRecorder_stopMediaTracks st) = playbackTimerRef st"
  "mediaUrl (MediaRecorder_stopMediaTracks st) = mediaUrl st"
  "liveUrls (MediaRecorder_stopMediaTracks st) = liveUrls st"
  "isRecording (MediaRecorder_stopMediaTracks st) = isRecording st"
  by (cases "streamRef st"; simp add: MediaRecorder_stopMediaTracks_def stop_tracks_def)+

lemma revokeMediaUrl_effect:
  "liveUrls (revokeMediaUrl st) = liveUrls st - set_option (mediaUrl st)"
  "mediaUrl (revokeMediaUrl st) = None"
  "activeTimers (revokeMediaUrl st) = activeTimers st"
  "timerRef (revokeMediaUrl st) = timerRef st"
  "playbackTimerRef (revokeMediaUrl st) = playbackTimerRef st"
  "liveStreams (revokeMediaUrl st) = liveStreams st"
  "streamRef (revokeMediaUrl st) = streamRef st"
  "isRecording (revokeMediaUrl st) = isRecording st"
  by (cases "mediaUrl st"; simp add: revokeMediaUrl_def revokeObjectURL_def)+

lemma MediaRecorder_stopMediaTracks_other:
  "analysisTimeouts (MediaRecorder_stopMediaTracks st) = analysisTimeouts st"
  "gumCalls (MediaRecorder_stopMediaTracks st) = gumCalls st"
  "mediaRef (MediaRecorder_stopMediaTracks st) = mediaRef st"
  by (cases "streamRef st"; simp add: MediaRecorder_stopMediaTracks_def stop_tracks_def)+

lemma revokeMediaUrl_other:
  "analysisTimeouts (revokeMediaUrl st) = analysisTimeouts st"
  "gumCalls (revokeMediaUrl st) = gumCalls st"
  by (cases "mediaUrl st"; simp add: revokeMediaUrl_def revokeObjectURL_def)+

lemma MediaRecorder_startMediaStream_effect:
  "activeTimers (MediaRecorder_startMediaStream env cl st) = activeTimers st"
  "timerRef (MediaRecorder_startMediaStream env cl st) = timerRef st"
  "playbackTimerRef (MediaRecorder_startMediaStream env cl st) = playbackTimerRef st"
  "liveUrls (MediaRecorder_startMediaStream env cl st) = liveUrls st"
  "mediaUrl (MediaRecorder_startMediaStream env cl st) = mediaUrl st"
  "isRecording (MediaRecorder_startMediaStream env cl st) = isRecording st"
  "recordedBlob (MediaRecorder_startMediaStream env cl st) = recordedBlob st"
  "isPlaying (MediaRecorder_startMediaStream env cl st) = isPlaying st"
  "currentTime (MediaRecorder_startMediaStream env cl st) = currentTime st"
  "duration (MediaRecorder_startMediaStream env cl st) = duration st"
  "transcribedText (MediaRecorder_startMediaStream env cl st) = transcribedText st"
  "isPlaybackInProgress (MediaRecorder_startMediaStream env cl st) = isPlaybackInProgress st"
  by (cases "getUserMedia env (gumCalls st)";
      simp add: MediaRecorder_startMediaStream_def MediaRecorder_updateAnalysis_def
        new_stream_def Let_def)+

lemma MediaRecorder_startMediaStream_streams:
  "liveStreams (MediaRecorder_startMediaStream env cl st) =
     (case getUserMedia env (gumCalls st) of
        Granted \<Rightarrow> insert (nextId st) (liveStreams st)
      | Refused name message \<Rightarrow> liveStreams st)"
  "streamRef (MediaRecorder_startMediaStream env cl st) =
     (case getUserMedia env (gumCalls st) of
        Granted \<Rightarrow> Some (nextId st)
      | Refused name message \<Rightarrow> streamRef st)"
  by (cases "getUserMedia env (gumCalls st)";
      simp add: MediaRecorder_startMediaStream_def MediaRecorder_updateAnalysis_def
        new_stream_def Let_def)+

lemma MediaRecorder_resetRecording_timers:
  "activeTimers (MediaRecorder_resetRecording env st) =
     activeTimers st - set_option (timerRef st) - set_option (playbackTimerRef st)"
  "timerRef (MediaRecorder_resetRecording env st) = None"
  "playbackTimerRef (MediaRecorder_resetRecording env st) = None"
  by (cases "mediaRef st"; cases "isRecording st \<and> mediaRecorderRef st \<noteq> None";
      simp add: MediaRecorder_resetRecording_def Let_def MediaRecorder_startMediaStream_effect
        revokeMediaUrl_effect clearTimers_timers MediaRecorder_stopMediaTracks_effect
        MediaRecorder_stopRecording_timers)+

lemma MediaRecorder_resetRecording_streams:
  "liveStreams (MediaRecorder_resetRecording env st)
     \<subseteq> (liveStreams st - set_option (streamRef st))
        \<union> set_option (streamRef (MediaRecorder_resetRecording env st))"
  by (cases "mediaRef st"; cases "isRecording st \<and> mediaRecorderRef st \<noteq> None";
      simp add: MediaRecorder_resetRecording_def Let_def MediaRecorder_startMediaStream_streams
        revokeMediaUrl_effect clearTimers_timers MediaRecorder_stopMediaTracks_effect
        MediaRecorder_stopRecording_timers split: gum_result.splits)

lemma MediaRecorder_resetRecording_url:
  "liveUrls (MediaRecorder_resetRecording env st) = liveUrls st - set_option (mediaUrl st)"
  "mediaUrl (MediaRecorder_resetRecording env st) = None"
  by (cases "mediaRef st"; cases "isRecording st \<and> mediaRecorderRef st \<noteq> None";
      simp add: MediaRecorder_resetRecording_def Let_def MediaRecorder_startMediaStream_effect
        revokeMediaUrl_effect clearTimers_timers MediaRecorder_stopMediaTracks_effect
        MediaRecorder_stopRecording_timers)+

lemma MediaRecorder_resetRecording_cells:
  "recordedBlob (MediaRecorder_resetRecording env st) = None"
  "isPlaying (MediaRecorder_resetRecording env st) = False"
  "currentTime (MediaRecorder_resetRecording env st) = 0"
  "duration (MediaRecorder_resetRecording env st) = 0"
  "transcribedText (MediaRecorder_resetRecording env st) = None"
  "isPlaybackInProgress (MediaRecorder_resetRecording env st) = False"
  by (simp_all add: MediaRecorder_resetRecording_def Let_def MediaRecorder_startMediaStream_effect)

text \<open>
  What it does not release: a stream that \<open>streamRef\<close> no longer holds stays live (the
  mount acquires two streams and keeps the second), and a reset called while recording
  starts an analysis loop that has closed over \<open>isRecording = true\<close>, which emits a
  sample and schedules itself again each time the browser runs it.
\<close>

lemma MediaRecorder_mount_streams:
  "liveStreams (fst (MediaRecorder_mount granting_browser loading_whisper audio whisper_initial)) = {1, 0}
   \<and> streamRef (fst (MediaRecorder_mount granting_browser loading_whisper audio whisper_initial)) = Some 1"
  by code_simp

lemma MediaRecorder_resetRecording_analysis:
  "analysisTimeouts (MediaRecorder_resetRecording env st) =
     analysisTimeouts st @
       (if isRecording st \<and> getUserMedia env (gumCalls st) = Granted then [render_of st] else [])"
  by (cases "getUserMedia env (gumCalls st)";
      simp add: MediaRecorder_resetRecording_def Let_def MediaRecorder_startMediaStream_def
        MediaRecorder_updateAnalysis_def new_stream_def render_of_def
        revokeMediaUrl_other clearTimers_timers clearTimers_analysis
        MediaRecorder_stopMediaTracks_other MediaRecorder_stopRecording_timers
        MediaRecorder_stopRecording_analysis split: option.splits)

lemma MediaRecorder_analysisTimeout_rearms:
  "analysisTimeouts st = cl # rest \<Longrightarrow> cl_isRecording cl \<Longrightarrow>
   analysisTimeouts (MediaRecorder_analysisTimeout env st) = rest @ [cl]"
  by (simp add: MediaRecorder_analysisTimeout_def MediaRecorder_updateAnalysis_def Let_def)

text \<open>
  Claim C8, at the failing input: \<open>AudioRecorder\<close> holding the stream it acquired on
  mount, \<open>startRecording()\<close>, then \<open>resetRecording()\<close>. \<open>AudioRecorder.resetRecording\<close>
  neither stops the recording nor clears a timer nor stops a track: after it, the
  recording clock (timer 1) is still scheduled, the stream of the prior attempt (stream 0)
  is still live beside the fresh one (stream 2), and the component is still recording.

  The same two calls on \<open>MediaRecorder\<close> after its mount (streams 0 and 1, of which it
  holds stream 1) clear the recording clock (timer 2), stop the tracks of the stream held
  and end the recording; stream 0, which the mount lost, stays live beside the fresh one
  (stream 3), and one run of the analysis loop is scheduled.
\<close>

theorem C8_AudioRecorder_reset_keeps_timer_and_tracks:
  "map_option (\<lambda>s. (activeTimers s, liveStreams s, streamRef s, isRecording s))
     (map_option (AudioRecorder_resetRecording granting_browser)
        (AudioRecorder_startRecording 1 granting_browser (AudioRecorder_ready granting_browser)))
     = Some ({1}, {2, 0}, Some 2, True)
   \<and> map_option (\<lambda>s. (activeTimers s, liveStreams s, streamRef s, isRecording s,
                       map cl_isRecording (analysisTimeouts s)))
     (map_option (MediaRecorder_resetRecording granting_browser)
        (MediaRecorder_startRecording 1 granting_browser
           (fst (MediaRecorder_mount granting_browser loading_whisper audio whisper_initial))))
     = Some ({}, {3, 0}, Some 3, False, [True])"
  by code_simp
section \<open>The simulated analysis samples\<close>










section \<open>The loader caches its outcome\<close>

text \<open>
  The invariant \<open>loader_inv\<close> holds initially and every event preserves it.
\<close>

lemma whisper_run_Nil: "whisper_run env [] m = m"
  by (simp add: whisper_run_def)

lemma whisper_run_Cons: "whisper_run env (ev # evs) m = whisper_run env evs (whisper_step env m ev)"
  by (simp add: whisper_run_def)

lemma loader_inv_initial: "loader_inv whisper_initial"
  by (simp add: loader_inv_def whisper_initial_def)

lemma loader_inv_step: "loader_inv m \<Longrightarrow> loader_inv (whisper_step env m ev)"
  by (cases ev)
     (auto simp add: loader_inv_def initWhisper_def new_promise_def settle_def script_onload_def
        script_onerror_def script_in_flight_def Let_def split: option.splits if_splits)

lemma loader_inv_run: "loader_inv m \<Longrightarrow> loader_inv (whisper_run env evs m)"
  by (induction evs arbitrary: m) (simp_all add: whisper_run_Nil whisper_run_Cons loader_inv_step)

lemma loadPromise_step: "loadPromise m = Some p \<Longrightarrow> loadPromise (whisper_step env m ev) = Some p"
  by (cases ev)
     (auto simp add: initWhisper_def new_promise_def settle_def script_onload_def
        script_onerror_def script_in_flight_def Let_def split: option.splits if_splits)

lemma loadPromise_run: "loadPromise m = Some p \<Longrightarrow> loadPromise (whisper_run env evs m) = Some p"
  by (induction evs arbitrary: m) (simp_all add: whisper_run_Nil whisper_run_Cons loadPromise_step)

lemma initWhisper_returns:
  "loadPromise m = Some p \<Longrightarrow>
   fst (initWhisper env m) = (if isWhisperLoaded m \<and> transformersLib m \<noteq> None then nextPromise m else p)"
  by (auto simp add: initWhisper_def new_promise_def)

lemma initWhisper_fresh_fulfilled:
  "isWhisperLoaded m \<Longrightarrow> transformersLib m \<noteq> None \<Longrightarrow>
   promises (snd (initWhisper env m)) (fst (initWhisper env m)) = Some Fulfilled"
  by (simp add: initWhisper_def new_promise_def)

lemma rejected_step:
  assumes "loadPromise m = Some p" and "promises m p = Some (Rejected e)" and "\<not> isWhisperLoaded m"
  shows "whisper_step env m ev = m"
  using assms
  by (cases ev) (simp_all add: initWhisper_def script_in_flight_def)

lemma rejected_run:
  assumes "loadPromise m = Some p" and "promises m p = Some (Rejected e)" and "\<not> isWhisperLoaded m"
  shows "whisper_run env evs m = m"
  by (induction evs) (simp_all add: whisper_run_Nil whisper_run_Cons rejected_step [OF assms])

lemma rejected_call:
  assumes "loadPromise m = Some p" and "promises m p = Some (Rejected e)" and "\<not> isWhisperLoaded m"
  shows "initWhisper env m = (p, m)"
  using assms by (simp add: initWhisper_def)

text \<open>
  Claim C10 as stated fails where it says that every call after the first returns the
  same promise: once the script has loaded the library, a call returns a new promise
  (promise 1), not \<open>loadPromise\<close> (promise 0).
\<close>

theorem C10_success_returns_new_promise_counterexample:
  "fst (initWhisper loading_whisper whisper_initial) = 0
   \<and> loadPromise (whisper_run loading_whisper [CallInit, ScriptLoad] whisper_initial) = Some 0
   \<and> fst (initWhisper loading_whisper (whisper_run loading_whisper [CallInit, ScriptLoad] whisper_initial)) = 1
   \<and> fst (initWhisper loading_whisper (whisper_run loading_whisper [CallInit, ScriptLoad] whisper_initial))
       \<noteq> fst (initWhisper loading_whisper whisper_initial)"
  by (simp add: whisper_run_def initWhisper_def new_promise_def settle_def script_onload_def
        script_in_flight_def loading_whisper_def whisper_initial_def Let_def)

text \<open>
  Claim C10 as amended. In every state the loader can reach: at most one script element
  has been appended; \<open>loadPromise\<close>, once set, is never cleared or replaced; a call
  returns \<open>loadPromise\<close> itself unless the library is loaded (\<open>isWhisperLoaded\<close> and
  \<open>transformersLib\<close> set), in which case it returns a new promise that is already
  fulfilled, as \<open>loadPromise\<close> then is; and once \<open>loadPromise\<close> is rejected, every later
  call returns that same rejected promise and nothing changes the loader again, so the
  script load is never re-attempted.
\<close>

theorem C10_loader_caches_outcome:
  assumes "m = whisper_run env evs whisper_initial"
  shows "scriptsAppended m \<le> 1
    \<and> (loadPromise m = Some p \<longrightarrow>
          loadPromise (whisper_run env' evs' m) = Some p
        \<and> (\<not> (isWhisperLoaded m \<and> transformersLib m \<noteq> None) \<longrightarrow> fst (initWhisper env' m) = p)
        \<and> (isWhisperLoaded m \<and> transformersLib m \<noteq> None \<longrightarrow>
              fst (initWhisper env' m) \<noteq> p
            \<and> promises m p = Some Fulfilled
            \<and> promises (snd (initWhisper env' m)) (fst (initWhisper env' m)) = Some Fulfilled)
        \<and> (promises m p = Some (Rejected e) \<longrightarrow>
              initWhisper env' m = (p, m)
            \<and> whisper_run env' evs' m = m
            \<and> scriptsAppended (whisper_run env' evs' m) = scriptsAppended m))"
proof -
  have inv: "loader_inv m"
    unfolding assms by (rule loader_inv_run [OF loader_inv_initial])
  then have one: "scriptsAppended m \<le> 1"
    by (simp add: loader_inv_def)
  have rest: "loadPromise (whisper_run env' evs' m) = Some p
        \<and> (\<not> (isWhisperLoaded m \<and> transformersLib m \<noteq> None) \<longrightarrow> fst (initWhisper env' m) = p)
        \<and> (isWhisperLoaded m \<and> transformersLib m \<noteq> None \<longrightarrow>
              fst (initWhisper env' m) \<noteq> p
            \<and> promises m p = Some Fulfilled
            \<and> promises (snd (initWhisper env' m)) (fst (initWhisper env' m)) = Some Fulfilled)
        \<and> (promises m p = Some (Rejected e) \<longrightarrow>
              initWhisper env' m = (p, m)
            \<and> whisper_run env' evs' m = m
            \<and> scriptsAppended (whisper_run env' evs' m) = scriptsAppended m)"
    if lp: "loadPromise m = Some p"
  proof -
    from inv lp have p: "p < nextPromise m" and l: "isWhisperLoaded m = (promises m p = Some Fulfilled)"
      by (simp_all add: loader_inv_def)
    have rej: "initWhisper env' m = (p, m) \<and> whisper_run env' evs' m = m
        \<and> scriptsAppended (whisper_run env' evs' m) = scriptsAppended m"
      if r: "promises m p = Some (Rejected e)"
    proof -
      from r l have nl: "\<not> isWhisperLoaded m" by simp
      show ?thesis
        by (simp add: rejected_call [OF lp r nl] rejected_run [OF lp r nl])
    qed
    show ?thesis
      using p l rej initWhisper_returns [OF lp, of env'] loadPromise_run [OF lp, of env' evs']
        initWhisper_fresh_fulfilled [of m env']
      by auto
  qed
  from one rest show ?thesis by blast
qed

theorem C10_loader_caches_outcome_witness:
  "loadPromise (whisper_run failing_script [CallInit, ScriptError] whisper_initial) = Some 0
   \<and> promises (whisper_run failing_script [CallInit, ScriptError] whisper_initial) 0
       = Some (Rejected ''Failed to load Whisper Web library'')
   \<and> \<not> isWhisperLoaded (whisper_run failing_script [CallInit, ScriptError] whisper_initial)
   \<and> scriptsAppended (whisper_run failing_script [CallInit, ScriptError] whisper_initial) = 1
   \<and> fst (initWhisper loading_whisper (whisper_run failing_script [CallInit, ScriptError] whisper_initial)) = 0
   \<and> scriptsAppended (whisper_run loading_whisper [CallInit, ScriptLoad, CallInit]
         (whisper_run failing_script [CallInit, ScriptError] whisper_initial)) = 1
   \<and> isWhisperLoaded (whisper_run loading_whisper [CallInit, ScriptLoad] whisper_initial)
   \<and> transformersLib (whisper_run loading_whisper [CallInit, ScriptLoad] whisper_initial) \<noteq> None
   \<and> promises (whisper_run loading_whisper [CallInit, ScriptLoad] whisper_initial) 0 = Some Fulfilled
   \<and> fst (initWhisper failing_script (whisper_run loading_whisper [CallInit, ScriptLoad] whisper_initial)) \<noteq> 0"
proof -
  have f: "loadPromise (whisper_run failing_script [CallInit, ScriptError] whisper_initial) = Some 0"
    "promises (whisper_run failing_script [CallInit, ScriptError] whisper_initial) 0
       = Some (Rejected ''Failed to load Whisper Web library'')"
    "\<not> isWhisperLoaded (whisper_run failing_script [CallInit, ScriptError] whisper_initial)"
    "scriptsAppended (whisper_run failing_script [CallInit, ScriptError] whisper_initial) = 1"
    by (simp_all add: whisper_run_def initWhisper_def new_promise_def settle_def script_onerror_def
          script_in_flight_def failing_script_def whisper_initial_def Let_def)
  have s: "loadPromise (whisper_run loading_whisper [CallInit, ScriptLoad] whisper_initial) = Some 0"
    "isWhisperLoaded (whisper_run loading_whisper [CallInit, ScriptLoad] whisper_initial)"
    "transformersLib (whisper_run loading_whisper [CallInit, ScriptLoad] whisper_initial) \<noteq> None"
    by (simp_all add: whisper_run_def initWhisper_def new_promise_def settle_def script_onload_def
          script_in_flight_def loading_whisper_def whisper_initial_def Let_def)
  from C10_loader_caches_outcome [OF refl, of failing_script "[CallInit, ScriptError]" 0
      loading_whisper "[CallInit, ScriptLoad, CallInit]" "''Failed to load Whisper Web library''"]
    C10_loader_caches_outcome [OF refl, of loading_whisper "[CallInit, ScriptLoad]" 0
      failing_script "[]" "[]"]
  show ?thesis
    using f s by simp
qed


end
